theory Spec2Isabelle
  imports Main
begin

section \<open>Python values and the library calls the client relies on\<close>

text \<open>
  The client handles JSON documents: the data entries read from a file, the bodies it
  posts and the bodies the service answers with. A decoded document is a Python value;
  \<open>JNull\<close> is Python's \<open>None\<close>, an object is a \<open>dict\<close>, kept as an association list
  in insertion order and read with \<open>map_of\<close>. Numbers are integers (floating point
  numbers are outside this model). A \<open>char\<close> stands for the code point of the
  same number (U+0000 to U+00FF).
\<close>

datatype json =
    JNull
  | JBool bool
  | JNum int
  | JStr string
  | JArr "json list"
  | JObj "(string \<times> json) list"

text \<open>The exceptions that can arise on the paths modelled here.\<close>

datatype py_error =
    KeyError
  | TypeError
  | AttributeError
  | IndexError
  | JSONDecodeError
  | TransportError

definition dquote :: char where
  "dquote = CHR 0x22"

definition squote :: char where
  "squote = CHR 0x27"

definition backslash :: char where
  "backslash = CHR 0x5C"

definition hex_digit :: "nat \<Rightarrow> char" where
  "hex_digit n = ''0123456789abcdef'' ! (n mod 16)"

fun str_nat :: "nat \<Rightarrow> string" where
  "str_nat n =
     (if n < 10 then [''0123456789'' ! n]
      else str_nat (n div 10) @ [''0123456789'' ! (n mod 10)])"

definition str_int :: "int \<Rightarrow> string" where
  "str_int i = (if i < 0 then ''-'' @ str_nat (nat (- i)) else str_nat (nat i))"

text \<open>\<open>sep.join(xs)\<close>\<close>

fun join :: "string \<Rightarrow> string list \<Rightarrow> string" where
  "join sep [] = []"
| "join sep [x] = x"
| "join sep (x # y # ys) = x @ sep @ join sep (y # ys)"

text \<open>
  \<open>json.dumps\<close> with its defaults: separators \<open>", "\<close> and \<open>": "\<close>, and
  \<open>ensure_ascii\<close>, under which every character outside the range from space to
  \<open>~\<close>, the double quote and the backslash are escaped.
\<close>

definition json_escape_char :: "char \<Rightarrow> string" where
  "json_escape_char c =
     (if c = dquote then [backslash, dquote]
      else if c = backslash then [backslash, backslash]
      else if c = CHR 0x0A then [backslash, CHR ''n'']
      else if c = CHR 0x0D then [backslash, CHR ''r'']
      else if c = CHR 0x09 then [backslash, CHR ''t'']
      else if c = CHR 0x08 then [backslash, CHR ''b'']
      else if c = CHR 0x0C then [backslash, CHR ''f'']
      else if (of_char c :: nat) < 0x20 \<or> 0x7E < (of_char c :: nat)
        then [backslash, CHR ''u'', CHR ''0'', CHR ''0'',
              hex_digit (of_char c div 16), hex_digit (of_char c)]
      else [c])"

definition json_encode_str :: "string \<Rightarrow> string" where
  "json_encode_str s = [dquote] @ concat (map json_escape_char s) @ [dquote]"

fun json_dumps :: "json \<Rightarrow> string" where
  "json_dumps JNull = ''null''"
| "json_dumps (JBool b) = (if b then ''true'' else ''false'')"
| "json_dumps (JNum n) = str_int n"
| "json_dumps (JStr s) = json_encode_str s"
| "json_dumps (JArr xs) = ''['' @ join '', '' (map json_dumps xs) @ '']''"
| "json_dumps (JObj kvs) =
     ''{'' @ join '', ''
        (map (\<lambda>kv. json_encode_str (fst kv) @ '': '' @ json_dumps (snd kv)) kvs) @ ''}''"

text \<open>
  What an f-string does with a value: \<open>str(v)\<close>, which is the text itself for a
  string and \<open>repr(v)\<close> for everything else.
\<close>

definition py_printable :: "char \<Rightarrow> bool" where
  "py_printable c =
     ((0x20 \<le> (of_char c :: nat) \<and> (of_char c :: nat) \<le> 0x7E)
      \<or> (0xA1 \<le> (of_char c :: nat) \<and> (of_char c :: nat) \<noteq> 0xAD))"

definition repr_char :: "char \<Rightarrow> char \<Rightarrow> string" where
  "repr_char q c =
     (if c = q \<or> c = backslash then [backslash, c]
      else if c = CHR 0x09 then [backslash, CHR ''t'']
      else if c = CHR 0x0A then [backslash, CHR ''n'']
      else if c = CHR 0x0D then [backslash, CHR ''r'']
      else if \<not> py_printable c
        then [backslash, CHR ''x'', hex_digit (of_char c div 16), hex_digit (of_char c)]
      else [c])"

definition py_repr_str :: "string \<Rightarrow> string" where
  "py_repr_str s =
     (let q = (if squote \<in> set s \<and> dquote \<notin> set s then dquote else squote)
      in [q] @ concat (map (repr_char q) s) @ [q])"

fun py_repr :: "json \<Rightarrow> string" where
  "py_repr JNull = ''None''"
| "py_repr (JBool b) = (if b then ''True'' else ''False'')"
| "py_repr (JNum n) = str_int n"
| "py_repr (JStr s) = py_repr_str s"
| "py_repr (JArr xs) = ''['' @ join '', '' (map py_repr xs) @ '']''"
| "py_repr (JObj kvs) =
     ''{'' @ join '', ''
        (map (\<lambda>kv. py_repr_str (fst kv) @ '': '' @ py_repr (snd kv)) kvs) @ ''}''"

definition py_str :: "json \<Rightarrow> string" where
  "py_str v = (case v of JStr s \<Rightarrow> s | _ \<Rightarrow> py_repr v)"

text \<open>
  \<open>v[k]\<close> with a string key: a \<open>dict\<close> raises \<open>KeyError\<close> when the key is
  missing; a list, a string, a number, a boolean and \<open>None\<close> raise \<open>TypeError\<close>.
\<close>

fun getitem :: "json \<Rightarrow> string \<Rightarrow> py_error + json" where
  "getitem (JObj kvs) k = (case map_of kvs k of None \<Rightarrow> Inl KeyError | Some v \<Rightarrow> Inr v)"
| "getitem JNull k = Inl TypeError"
| "getitem (JBool b) k = Inl TypeError"
| "getitem (JNum n) k = Inl TypeError"
| "getitem (JStr s) k = Inl TypeError"
| "getitem (JArr xs) k = Inl TypeError"

text \<open>
  \<open>v.get(k)\<close>: \<open>None\<close> for a key the \<open>dict\<close> lacks; only a \<open>dict\<close> has the
  method.
\<close>

fun dict_get :: "json \<Rightarrow> string \<Rightarrow> py_error + json" where
  "dict_get (JObj kvs) k = Inr (case map_of kvs k of None \<Rightarrow> JNull | Some v \<Rightarrow> v)"
| "dict_get JNull k = Inl AttributeError"
| "dict_get (JBool b) k = Inl AttributeError"
| "dict_get (JNum n) k = Inl AttributeError"
| "dict_get (JStr s) k = Inl AttributeError"
| "dict_get (JArr xs) k = Inl AttributeError"

section \<open>The HTTP exchange and the world the client runs in\<close>

datatype http_method = GET | POST

record request =
  verb :: http_method
  url :: string
  headers :: "(string \<times> string) list"
  payload :: "json option"

text \<open>
  A response carries its status code and what \<open>response.json()\<close> gives: the decoded
  body, or \<open>None\<close> here when the body is not JSON and the call raises.
\<close>

record response =
  status_code :: int
  body :: "json option"

definition response_json :: "response \<Rightarrow> py_error + json" where
  "response_json r = (case body r of None \<Rightarrow> Inl JSONDecodeError | Some j \<Rightarrow> Inr j)"

text \<open>
  What the program does that can be observed from outside: an HTTP exchange (the
  request and the response, or \<open>None\<close> for a transport failure), and a call of
  \<open>asyncio.sleep\<close>, with its duration in milliseconds.
\<close>

datatype event =
    Http request "response option"
  | Slept nat

text \<open>
  The remote service is a state machine of any state type \<open>'w\<close>: it answers a request
  from its present state and moves on. The world holds the service's state, the progress
  display (the \<open>completed\<close> amount of each task, indexed by the task's id) and the
  events so far.
\<close>

type_synonym 'w service = "'w \<Rightarrow> request \<Rightarrow> response option \<times> 'w"

record 'w world =
  server :: 'w
  progress :: "nat list"
  trace :: "event list"

text \<open>
  How a run stands: it returned a value, it raised, or it is still running when the
  fuel (for one poller) or the schedule (for a batch) ends.
\<close>

datatype ('a, 'w) outcome =
    Returned 'a "'w world"
  | Raised py_error "'w world"
  | Running "'w world"

fun final :: "('a, 'w) outcome \<Rightarrow> 'w world" where
  "final (Returned v s) = s"
| "final (Raised e s) = s"
| "final (Running s) = s"

record settings =
  PAPERO_SERVER :: string

definition default_settings :: settings where
  "default_settings = \<lparr>PAPERO_SERVER = ''https://papero.io''\<rparr>"

record client =
  client_headers :: "(string \<times> string) list"

definition AsyncClient :: "string \<Rightarrow> client" where
  "AsyncClient token = \<lparr>client_headers = [(''authorization'', ''Bearer '' @ token)]\<rparr>"

text \<open>
  One call of the HTTP library that reaches the service: the request goes out and the
  answer, or the failure of the transport, comes back. What the library may raise
  before it sends anything (\<open>httpx.InvalidURL\<close> for a URL it rejects, as for a job id
  with a control character in it) is not part of this model; the properties below that
  need a request to go out say so, by a condition on the answer or on the job id.
\<close>

definition send :: "'w service \<Rightarrow> request \<Rightarrow> 'w world \<Rightarrow> (py_error + response) \<times> 'w world" where
  "send srv rq s =
     (case srv (server s) rq of
        (ans, w') \<Rightarrow>
          ((case ans of None \<Rightarrow> Inl TransportError | Some r \<Rightarrow> Inr r),
           s\<lparr>server := w', trace := trace s @ [Http rq ans]\<rparr>))"

definition get_request :: "client \<Rightarrow> string \<Rightarrow> request" where
  "get_request c u = \<lparr>verb = GET, url = u, headers = client_headers c, payload = None\<rparr>"

definition post_request :: "client \<Rightarrow> string \<Rightarrow> json \<Rightarrow> request" where
  "post_request c u j = \<lparr>verb = POST, url = u, headers = client_headers c, payload = Some j\<rparr>"

definition client_get :: "'w service \<Rightarrow> client \<Rightarrow> string \<Rightarrow> 'w world \<Rightarrow> (py_error + response) \<times> 'w world" where
  "client_get srv c u s = send srv (get_request c u) s"

definition client_post :: "'w service \<Rightarrow> client \<Rightarrow> string \<Rightarrow> json \<Rightarrow> 'w world \<Rightarrow> (py_error + response) \<times> 'w world" where
  "client_post srv c u j s = send srv (post_request c u j) s"

definition sleep :: "nat \<Rightarrow> 'w world \<Rightarrow> 'w world" where
  "sleep ms s = s\<lparr>trace := trace s @ [Slept ms]\<rparr>"

text \<open>
  \<open>progress.add_task\<close> gives the next task id; \<open>progress.update(task, completed=n)\<close>
  raises \<open>KeyError\<close> for an id the display does not hold.
\<close>

definition Progress_add_task :: "'w world \<Rightarrow> nat \<times> 'w world" where
  "Progress_add_task s = (length (progress s), s\<lparr>progress := progress s @ [0]\<rparr>)"

definition Progress_update :: "nat \<Rightarrow> nat \<Rightarrow> 'w world \<Rightarrow> py_error + 'w world" where
  "Progress_update task n s =
     (if task < length (progress s) then Inr (s\<lparr>progress := (progress s)[task := n]\<rparr>)
      else Inl KeyError)"

section \<open>The client\<close>

definition api_url :: "settings \<Rightarrow> string \<Rightarrow> string" where
  "api_url cfg suffix = PAPERO_SERVER cfg @ ''/api/v1/'' @ suffix"

definition default_template_server :: string where
  "default_template_server = ''https://demo.papero.io/templates''"

definition template_url :: "string \<Rightarrow> json \<Rightarrow> string \<Rightarrow> string" where
  "template_url template data template_server =
     (let json_data = json_dumps data
      in template_server @ ''/'' @ template @ ''?data='' @ json_data)"

definition post_job :: "'w service \<Rightarrow> settings \<Rightarrow> client \<Rightarrow> string \<Rightarrow> string \<Rightarrow> 'w world \<Rightarrow> (py_error + response) \<times> 'w world" where
  "post_job srv cfg c resource input_type s =
     client_post srv c (api_url cfg ''jobs/'')
       (JObj [(''resource'', JStr resource), (''input_type'', JStr input_type)]) s"

definition post_template_job :: "'w service \<Rightarrow> settings \<Rightarrow> client \<Rightarrow> string \<Rightarrow> json \<Rightarrow> 'w world \<Rightarrow> (py_error + response) \<times> 'w world" where
  "post_template_job srv cfg c template data s =
     post_job srv cfg c (template_url template data default_template_server) ''url'' s"

text \<open>The expression \<open>doc_req.json()["document"]["url"]\<close>.\<close>

definition document_url :: "response \<Rightarrow> py_error + json" where
  "document_url r =
     (case response_json r of
        Inl e \<Rightarrow> Inl e
      | Inr j \<Rightarrow> (case getitem j ''document'' of Inl e \<Rightarrow> Inl e | Inr d \<Rightarrow> getitem d ''url''))"

text \<open>The expression \<open>job_req.json().get("job_id")\<close>.\<close>

definition job_id_of :: "response \<Rightarrow> py_error + json" where
  "job_id_of r = (case response_json r of Inl e \<Rightarrow> Inl e | Inr j \<Rightarrow> dict_get j ''job_id'')"

definition status_request :: "settings \<Rightarrow> client \<Rightarrow> json \<Rightarrow> request" where
  "status_request cfg c job_id = get_request c (api_url cfg (''jobs/'' @ py_str job_id))"

text \<open>
  One pass through the body of the loop of \<open>poll_for_pdf\<close>, entered with
  \<open>pdf_link\<close> being \<open>None\<close>: the value of \<open>pdf_link\<close> after the pass, or the
  exception that leaves the loop. The handler catches \<open>KeyError\<close> and \<open>TypeError\<close>
  from both statements of the \<open>try\<close> block and nothing else.
\<close>

definition poll_body :: "'w service \<Rightarrow> settings \<Rightarrow> client \<Rightarrow> json \<Rightarrow> nat \<Rightarrow> 'w world \<Rightarrow> (py_error + json) \<times> 'w world" where
  "poll_body srv cfg c job_id task s =
     (case client_get srv c (api_url cfg (''jobs/'' @ py_str job_id)) s of
        (Inl e, s1) \<Rightarrow> (Inl e, s1)
      | (Inr doc_req, s1) \<Rightarrow>
          if status_code doc_req = 200 then
            (case document_url doc_req of
               Inl e \<Rightarrow>
                 if e = KeyError \<or> e = TypeError then (Inr JNull, sleep 300 s1)
                 else (Inl e, s1)
             | Inr link \<Rightarrow>
                 (case Progress_update task 100 s1 of
                    Inl e \<Rightarrow>
                      if e = KeyError \<or> e = TypeError then (Inr link, sleep 300 s1)
                      else (Inl e, s1)
                  | Inr s2 \<Rightarrow> (Inr link, s2)))
          else (Inr JNull, s1))"

text \<open>
  \<open>poll_for_pdf\<close>: the loop \<open>while pdf_link is None\<close>. The loop has no bound of
  its own, so the model takes fuel, one unit for each pass, and says \<open>Running\<close> when
  the fuel ends with the loop still going.
\<close>

fun poll_for_pdf :: "'w service \<Rightarrow> settings \<Rightarrow> client \<Rightarrow> json \<Rightarrow> nat \<Rightarrow> nat \<Rightarrow> 'w world \<Rightarrow> (json, 'w) outcome" where
  "poll_for_pdf srv cfg c job_id task 0 s = Running s"
| "poll_for_pdf srv cfg c job_id task (Suc n) s =
     (case poll_body srv cfg c job_id task s of
        (Inl e, s') \<Rightarrow> Raised e s'
      | (Inr pdf_link, s') \<Rightarrow>
          if pdf_link = JNull then poll_for_pdf srv cfg c job_id task n s'
          else Returned pdf_link s')"

definition fresh :: "'w \<Rightarrow> 'w world" where
  "fresh w = \<lparr>server = w, progress = [], trace = []\<rparr>"

definition handle_post_job :: "'w service \<Rightarrow> settings \<Rightarrow> nat \<Rightarrow> string \<Rightarrow> string \<Rightarrow> string \<Rightarrow> 'w \<Rightarrow> (json, 'w) outcome" where
  "handle_post_job srv cfg fuel token resource input_type w =
     (let c = AsyncClient token in
      case Progress_add_task (fresh w) of
        (task, s1) \<Rightarrow>
          (case post_job srv cfg c resource input_type s1 of
             (Inl e, s2) \<Rightarrow> Raised e s2
           | (Inr job_req, s2) \<Rightarrow>
               (case job_id_of job_req of
                  Inl e \<Rightarrow> Raised e s2
                | Inr job_id \<Rightarrow> poll_for_pdf srv cfg c job_id task fuel s2)))"

text \<open>
  A coroutine of \<open>poll_for_pdf\<close> that \<open>handle_post_template_jobs\<close> has created:
  its arguments \<open>job_id\<close> and \<open>task\<close> and its local variable \<open>pdf_link\<close>,
  \<open>None\<close> until the loop ends.
\<close>

record poller =
  p_job_id :: json
  p_task :: nat
  p_link :: json

text \<open>
  The loop over the data entries: each entry's job is created before the next entry is
  looked at, and its poller is put on the list without being started.
\<close>

fun create_jobs :: "'w service \<Rightarrow> settings \<Rightarrow> client \<Rightarrow> string \<Rightarrow> json list \<Rightarrow> poller list \<Rightarrow> 'w world \<Rightarrow> (py_error + poller list) \<times> 'w world" where
  "create_jobs srv cfg c template [] jobs s = (Inr jobs, s)"
| "create_jobs srv cfg c template (entry # rest) jobs s =
     (case Progress_add_task s of
        (task, s1) \<Rightarrow>
          (case post_template_job srv cfg c template entry s1 of
             (Inl e, s2) \<Rightarrow> (Inl e, s2)
           | (Inr job_req, s2) \<Rightarrow>
               (case job_id_of job_req of
                  Inl e \<Rightarrow> (Inl e, s2)
                | Inr jid \<Rightarrow>
                    create_jobs srv cfg c template rest
                      (jobs @ [\<lparr>p_job_id = jid, p_task = task, p_link = JNull\<rparr>]) s2)))"

text \<open>
  \<open>asyncio.gather\<close> over the pollers. The event loop resumes one poller at a time;
  which one is the next to get its answer is not the program's choice, so the model
  takes the order as a schedule: a list of positions, each letting that poller make one
  pass through its loop (a position whose poller has returned, or that names no poller,
  is skipped). The gathered call returns once every poller has returned, with the values
  in the order of the list of pollers; the first exception is raised to the caller.
\<close>

fun gather :: "'w service \<Rightarrow> settings \<Rightarrow> client \<Rightarrow> nat list \<Rightarrow> poller list \<Rightarrow> 'w world \<Rightarrow> (json list, 'w) outcome" where
  "gather srv cfg c [] ps s =
     (if list_all (\<lambda>p. p_link p \<noteq> JNull) ps then Returned (map p_link ps) s
      else Running s)"
| "gather srv cfg c (i # sched) ps s =
     (if list_all (\<lambda>p. p_link p \<noteq> JNull) ps then Returned (map p_link ps) s
      else if i < length ps \<and> p_link (ps ! i) = JNull then
        (case poll_body srv cfg c (p_job_id (ps ! i)) (p_task (ps ! i)) s of
           (Inl e, s') \<Rightarrow> Raised e s'
         | (Inr v, s') \<Rightarrow> gather srv cfg c sched (ps[i := (ps ! i)\<lparr>p_link := v\<rparr>]) s')
      else gather srv cfg c sched ps s)"

definition handle_post_template_jobs :: "'w service \<Rightarrow> settings \<Rightarrow> nat list \<Rightarrow> string \<Rightarrow> string \<Rightarrow> json list \<Rightarrow> 'w \<Rightarrow> (json list, 'w) outcome" where
  "handle_post_template_jobs srv cfg sched token template data w =
     (let c = AsyncClient token in
      case create_jobs srv cfg c template data [] (fresh w) of
        (Inl e, s) \<Rightarrow> Raised e s
      | (Inr jobs, s) \<Rightarrow> gather srv cfg c sched jobs s)"

text \<open>
  The command \<open>add_job_template\<close>, from the decoded file on: the lines it echoes and
  how it ends. \<open>pdfs[0]\<close> raises \<open>IndexError\<close> on an empty list.
\<close>

definition add_job_template :: "'w service \<Rightarrow> settings \<Rightarrow> nat list \<Rightarrow> string \<Rightarrow> json \<Rightarrow> string \<Rightarrow> 'w \<Rightarrow> string list \<times> (unit, 'w) outcome" where
  "add_job_template srv cfg sched template data token w =
     (let out = [''Creating PDF from template with given data.''] in
      case handle_post_template_jobs srv cfg sched token template [data] w of
        Returned pdfs s \<Rightarrow>
          (case pdfs of
             [] \<Rightarrow> (out, Raised IndexError s)
           | pdf # rest \<Rightarrow> (out @ [py_str pdf], Returned () s))
      | Raised e s \<Rightarrow> (out, Raised e s)
      | Running s \<Rightarrow> (out, Running s))"

section \<open>Notions the properties are stated with\<close>

text \<open>The world after one exchange with the service.\<close>

definition after_send :: "'w service \<Rightarrow> request \<Rightarrow> 'w world \<Rightarrow> 'w world" where
  "after_send srv rq s =
     s\<lparr>server := snd (srv (server s) rq), trace := trace s @ [Http rq (fst (srv (server s) rq))]\<rparr>"

text \<open>The request \<open>post_job\<close> sends, and the one \<open>post_template_job\<close> sends for an entry.\<close>

definition job_request :: "settings \<Rightarrow> client \<Rightarrow> string \<Rightarrow> string \<Rightarrow> request" where
  "job_request cfg c resource input_type =
     post_request c (api_url cfg ''jobs/'')
       (JObj [(''resource'', JStr resource), (''input_type'', JStr input_type)])"

definition creation_request :: "settings \<Rightarrow> client \<Rightarrow> string \<Rightarrow> json \<Rightarrow> request" where
  "creation_request cfg c template entry =
     job_request cfg c (template_url template entry default_template_server) ''url''"

text \<open>
  The creation exchanges of the first entries, in the order of the entries, each with
  the answer it got.
\<close>

definition creation_events :: "settings \<Rightarrow> client \<Rightarrow> string \<Rightarrow> json list \<Rightarrow> response option list \<Rightarrow> event list" where
  "creation_events cfg c template entries anss =
     map (\<lambda>(entry, a). Http (creation_request cfg c template entry) a) (zip entries anss)"

text \<open>An event of a poll loop: a \<open>GET\<close> exchange or a sleep.\<close>

definition is_poll_event :: "event \<Rightarrow> bool" where
  "is_poll_event ev = (case ev of Http rq a \<Rightarrow> verb rq = GET | Slept d \<Rightarrow> True)"

definition is_request :: "request \<Rightarrow> event \<Rightarrow> bool" where
  "is_request rq ev = (case ev of Http rq' a \<Rightarrow> rq' = rq | Slept d \<Rightarrow> False)"

text \<open>How many times a request was sent.\<close>

definition count_sent :: "request \<Rightarrow> event list \<Rightarrow> nat" where
  "count_sent rq tr = length (filter (is_request rq) tr)"

text \<open>
  An answer to a status request after which the loop goes on: any status other than 200,
  or a 200 whose body is JSON without a value at \<open>document.url\<close> other than \<open>None\<close>.
\<close>

definition not_ready :: "response option \<Rightarrow> bool" where
  "not_ready ans =
     (case ans of
        None \<Rightarrow> False
      | Some r \<Rightarrow>
          status_code r \<noteq> 200 \<or> document_url r = Inl KeyError \<or> document_url r = Inl TypeError
          \<or> document_url r = Inr JNull)"

text \<open>
  Among these events, the request was answered with status 200 and a body holding
  \<open>v\<close> at \<open>document.url\<close>.
\<close>

definition resolved_in :: "event list \<Rightarrow> request \<Rightarrow> json \<Rightarrow> bool" where
  "resolved_in tr rq v =
     list_ex (\<lambda>ev. case ev of
                 Http rq' (Some r) \<Rightarrow> rq' = rq \<and> status_code r = 200 \<and> document_url r = Inr v
               | _ \<Rightarrow> False) tr"

text \<open>
  Transport failures among the events of a run: none unless the run raised, and then
  only as the last event, which is a failure exactly when the exception is the
  transport's.
\<close>

definition run_ok :: "event list \<Rightarrow> ('a, 'w) outcome \<Rightarrow> bool" where
  "run_ok evs out =
     (case out of
        Raised e s' \<Rightarrow>
          evs \<noteq> [] \<and> (\<forall>rq. Http rq None \<notin> set (butlast evs))
          \<and> ((\<exists>rq. last evs = Http rq None) = (e = TransportError))
      | _ \<Rightarrow> (\<forall>rq. Http rq None \<notin> set evs))"

text \<open>
  An answer to a status request that ends the loop with a result: status 200 and a value
  other than \<open>None\<close> at \<open>document.url\<close>.
\<close>

definition ready_answer :: "response option \<Rightarrow> bool" where
  "ready_answer ans =
     (case ans of
        None \<Rightarrow> False
      | Some r \<Rightarrow>
          status_code r = 200 \<and> (case document_url r of Inl e \<Rightarrow> False | Inr v \<Rightarrow> v \<noteq> JNull))"

text \<open>
  A job id whose text the HTTP library takes into the path of a URL as it is: not empty,
  at most 64 characters, and letters, digits, \<open>-\<close> and \<open>_\<close> only.
\<close>

definition id_char :: "char \<Rightarrow> bool" where
  "id_char ch = (ch \<in> set ''ABCDEFGHIJKLMNOPQRSTUVWXYZabcdefghijklmnopqrstuvwxyz0123456789-_'')"

definition sendable_id :: "json \<Rightarrow> bool" where
  "sendable_id jid = (py_str jid \<noteq> [] \<and> length (py_str jid) \<le> 64 \<and> list_all id_char (py_str jid))"

text \<open>
  A service under which a batch comes to an end. In every state it answers the creation
  request of every entry with a job id from \<open>ids\<close>; and it answers the status request
  for every id from \<open>ids\<close> either with a result, or with an answer after which the loop
  goes on. The measure \<open>m\<close> of its state bounds how often it does the latter: such an
  answer lowers \<open>m\<close>, and no other answer raises it.
\<close>

definition creations_answered ::
  "'w service \<Rightarrow> settings \<Rightarrow> client \<Rightarrow> string \<Rightarrow> json list \<Rightarrow> json set \<Rightarrow> ('w \<Rightarrow> nat) \<Rightarrow> bool" where
  "creations_answered srv cfg c template data ids m =
     (\<forall>w. \<forall>entry \<in> set data.
        case srv w (creation_request cfg c template entry) of
          (None, w') \<Rightarrow> False
        | (Some r, w') \<Rightarrow>
            (case job_id_of r of Inl e \<Rightarrow> False | Inr jid \<Rightarrow> jid \<in> ids) \<and> m w' \<le> m w)"

definition polls_settle ::
  "'w service \<Rightarrow> settings \<Rightarrow> client \<Rightarrow> json set \<Rightarrow> ('w \<Rightarrow> nat) \<Rightarrow> bool" where
  "polls_settle srv cfg c ids m =
     (\<forall>w. \<forall>jid \<in> ids.
        case srv w (status_request cfg c jid) of
          (ans, w') \<Rightarrow> (ready_answer ans \<and> m w' \<le> m w) \<or> (not_ready ans \<and> m w' < m w))"

text \<open>The number of pollers whose loop has not ended.\<close>

definition pending :: "poller list \<Rightarrow> nat" where
  "pending ps = length (filter (\<lambda>p. p_link p = JNull) ps)"

text \<open>
  Percent-encoding as the specification's word "urlencoded" asks for it (RFC 3986: every
  character but the unreserved ones becomes \<open>%XX\<close>). The client has no such step; the
  definition is here to compare with what the client builds.
\<close>

definition url_unreserved :: "char \<Rightarrow> bool" where
  "url_unreserved ch =
     (ch \<in> set ''ABCDEFGHIJKLMNOPQRSTUVWXYZabcdefghijklmnopqrstuvwxyz0123456789-._~'')"

definition spec_urlencode :: "string \<Rightarrow> string" where
  "spec_urlencode s =
     concat (map (\<lambda>ch. if url_unreserved ch then [ch]
                        else [CHR ''%'', ''0123456789ABCDEF'' ! (of_char ch div 16),
                              ''0123456789ABCDEF'' ! (of_char ch mod 16)]) s)"

section \<open>Services and answers for the worked examples\<close>

text \<open>
  A service that answers from a script, one answer for each request whatever it asks,
  and with a fixed answer once the script is used up.
\<close>

definition scripted :: "response option \<Rightarrow> (response option list) service" where
  "scripted dflt w rq = (case w of [] \<Rightarrow> (dflt, []) | a # rest \<Rightarrow> (a, rest))"

definition ok_response :: "json \<Rightarrow> response" where
  "ok_response j = \<lparr>status_code = 200, body = Some j\<rparr>"

definition ready_response :: "string \<Rightarrow> response" where
  "ready_response u = ok_response (JObj [(''document'', JObj [(''url'', JStr u)])])"

definition created_response :: "string \<Rightarrow> response" where
  "created_response i = ok_response (JObj [(''job_id'', JStr i)])"

definition pending_response :: response where
  "pending_response = ok_response (JObj [])"

definition not_found_response :: response where
  "not_found_response = \<lparr>status_code = 404, body = Some (JObj [(''detail'', JStr ''Not Found'')])\<rparr>"

definition unauthorized_response :: response where
  "unauthorized_response =
     \<lparr>status_code = 401, body = Some (JObj [(''detail'', JStr ''Not authenticated'')])\<rparr>"

text \<open>A 200 answer whose body is not JSON.\<close>

definition html_response :: response where
  "html_response = \<lparr>status_code = 200, body = None\<rparr>"

text \<open>A service that turns every creation down with 401 and knows no job.\<close>

definition refusing :: "unit service" where
  "refusing w rq = (Some (if verb rq = POST then unauthorized_response else not_found_response), w)"

text \<open>
  A service that knows two jobs: it answers the creation for the entry \<open>{"a": 1}\<close> of
  the template \<open>invoice\<close> with the job id \<open>abc\<close> and every other creation with \<open>def\<close>;
  its state counts the status requests it still answers with an empty object before it
  answers with a document URL.
\<close>

definition two_jobs :: "nat service" where
  "two_jobs k rq =
     (if verb rq = POST then
        (Some (created_response
           (if rq = creation_request default_settings (AsyncClient ''tok'') ''invoice'' (JObj [(''a'', JNum 1)])
            then ''abc'' else ''def'')), k)
      else if k = 0 then (Some (ready_response (url rq @ ''.pdf'')), 0)
      else (Some pending_response, k - 1))"

section \<open>Lemmas\<close>

declare str_nat.simps [simp del]

lemma send_eq:
  "send srv rq s =
     ((case fst (srv (server s) rq) of None \<Rightarrow> Inl TransportError | Some r \<Rightarrow> Inr r),
      s\<lparr>server := snd (srv (server s) rq), trace := trace s @ [Http rq (fst (srv (server s) rq))]\<rparr>)"
  by (simp add: send_def split: prod.splits)

lemma client_get_status:
  "client_get srv c (api_url cfg (''jobs/'' @ py_str jid)) s = send srv (status_request cfg c jid) s"
  by (simp add: client_get_def status_request_def)

lemma poll_body_eq:
  "poll_body srv cfg c jid t s =
     (case fst (srv (server s) (status_request cfg c jid)) of
        None \<Rightarrow> (Inl TransportError, after_send srv (status_request cfg c jid) s)
      | Some doc_req \<Rightarrow>
          if status_code doc_req = 200 then
            (case document_url doc_req of
               Inl e \<Rightarrow>
                 if e = KeyError \<or> e = TypeError
                 then (Inr JNull, sleep 300 (after_send srv (status_request cfg c jid) s))
                 else (Inl e, after_send srv (status_request cfg c jid) s)
             | Inr link \<Rightarrow>
                 if t < length (progress s)
                 then (Inr link, (after_send srv (status_request cfg c jid) s)\<lparr>progress := (progress s)[t := 100]\<rparr>)
                 else (Inr link, sleep 300 (after_send srv (status_request cfg c jid) s)))
          else (Inr JNull, after_send srv (status_request cfg c jid) s))"
  unfolding poll_body_def client_get_status
  by (simp add: send_eq after_send_def Progress_update_def split: option.splits sum.splits)

lemma getitem_error: "getitem j k = Inl e \<Longrightarrow> e = KeyError \<or> e = TypeError"
  by (cases j) (auto split: option.splits)

lemma document_url_error:
  "document_url r = Inl e \<Longrightarrow> e = KeyError \<or> e = TypeError \<or> (e = JSONDecodeError \<and> body r = None)"
  by (auto simp: document_url_def response_json_def split: option.splits sum.splits dest: getitem_error)

lemma trace_after_send [simp]:
  "trace (after_send srv rq s) = trace s @ [Http rq (fst (srv (server s) rq))]"
  "progress (after_send srv rq s) = progress s"
  "server (after_send srv rq s) = snd (srv (server s) rq)"
  by (simp_all add: after_send_def)

lemma sleep_simps [simp]:
  "trace (sleep ms s) = trace s @ [Slept ms]"
  "progress (sleep ms s) = progress s"
  "server (sleep ms s) = server s"
  by (simp_all add: sleep_def)

lemma poll_body_trace:
  "\<exists>evs. trace (snd (poll_body srv cfg c jid t s)) =
     trace s @ Http (status_request cfg c jid) (fst (srv (server s) (status_request cfg c jid))) # evs
     \<and> (evs = [] \<or> evs = [Slept 300])"
  by (simp add: poll_body_eq split: option.splits sum.splits)

lemma poll_for_pdf_trace:
  "\<exists>evs. trace (final (poll_for_pdf srv cfg c jid t n s)) = trace s @ evs"
proof (induction n arbitrary: s)
  case 0
  then show ?case by simp
next
  case (Suc n)
  obtain r s1 where b: "poll_body srv cfg c jid t s = (r, s1)"
    by (cases "poll_body srv cfg c jid t s")
  from poll_body_trace [of srv cfg c jid t s] b
  obtain evs where e: "trace s1 = trace s @ evs" by auto
  show ?case
  proof (cases r)
    case (Inl x)
    with b e show ?thesis by simp
  next
    case (Inr v)
    from Suc.IH [of s1] obtain evs' where
      "trace (final (poll_for_pdf srv cfg c jid t n s1)) = trace s1 @ evs'" by blast
    with b e Inr show ?thesis by simp
  qed
qed

lemma poll_for_pdf_first_event:
  "\<exists>evs. trace (final (poll_for_pdf srv cfg c jid t (Suc n) s)) =
     trace s @ Http (status_request cfg c jid) (fst (srv (server s) (status_request cfg c jid))) # evs"
proof -
  obtain r s1 where b: "poll_body srv cfg c jid t s = (r, s1)"
    by (cases "poll_body srv cfg c jid t s")
  from poll_body_trace [of srv cfg c jid t s] b
  obtain evs where e: "trace s1 =
     trace s @ Http (status_request cfg c jid) (fst (srv (server s) (status_request cfg c jid))) # evs"
    by auto
  from poll_for_pdf_trace [of srv cfg c jid t n s1] obtain evs' where
    "trace (final (poll_for_pdf srv cfg c jid t n s1)) = trace s1 @ evs'" by blast
  with b e show ?thesis by (cases r) auto
qed

lemma resolved_in_append:
  "resolved_in (xs @ ys) rq v = (resolved_in xs rq v \<or> resolved_in ys rq v)"
  by (simp add: resolved_in_def list_ex_append)

lemma count_sent_append [simp]:
  "count_sent rq (xs @ ys) = count_sent rq xs + count_sent rq ys"
  by (simp add: count_sent_def is_request_def)

lemma count_sent_simps [simp]:
  "count_sent rq [] = 0"
  "count_sent rq (Http rq a # tr) = Suc (count_sent rq tr)"
  "count_sent rq (Slept d # tr) = count_sent rq tr"
  by (simp_all add: count_sent_def is_request_def)

lemma poll_body_not_ready:
  assumes "not_ready (fst (srv (server s) (status_request cfg c jid)))"
  shows "fst (poll_body srv cfg c jid t s) = Inr JNull"
  using assms by (auto simp: poll_body_eq not_ready_def split: option.splits sum.splits)

lemma poll_body_server:
  "server (snd (poll_body srv cfg c jid t s)) = snd (srv (server s) (status_request cfg c jid))"
  by (simp add: poll_body_eq split: option.splits sum.splits)

lemma poll_body_count:
  "count_sent (status_request cfg c jid) (trace (snd (poll_body srv cfg c jid t s))) =
     Suc (count_sent (status_request cfg c jid) (trace s))"
  using poll_body_trace [of srv cfg c jid t s] by auto

lemma poll_body_raised:
  assumes "poll_body srv cfg c jid t s = (Inl e, s1)"
  shows "(e = TransportError \<and> trace s1 = trace s @ [Http (status_request cfg c jid) None])
       \<or> (e = JSONDecodeError \<and>
          (\<exists>r. trace s1 = trace s @ [Http (status_request cfg c jid) (Some r)]
               \<and> status_code r = 200 \<and> body r = None))"
  using assms
  by (auto simp: poll_body_eq split: option.splits sum.splits if_splits dest: document_url_error)

lemma poll_body_found:
  assumes "poll_body srv cfg c jid t s = (Inr v, s1)"
  shows "\<exists>r evs. trace s1 = trace s @ Http (status_request cfg c jid) (Some r) # evs
           \<and> (evs = [] \<or> evs = [Slept 300])
           \<and> (v \<noteq> JNull \<longrightarrow> status_code r = 200 \<and> document_url r = Inr v)"
  using assms
  by (auto simp: poll_body_eq split: option.splits sum.splits if_splits)

lemma poll_for_pdf_exits:
  "(poll_for_pdf srv cfg c jid t n s = Returned v s' \<longrightarrow>
      v \<noteq> JNull \<and> resolved_in (drop (length (trace s)) (trace s')) (status_request cfg c jid) v)
   \<and> (poll_for_pdf srv cfg c jid t n s = Raised e s' \<longrightarrow>
        (e = TransportError \<and> last (trace s') = Http (status_request cfg c jid) None)
        \<or> (e = JSONDecodeError \<and>
            (\<exists>r. last (trace s') = Http (status_request cfg c jid) (Some r)
                 \<and> status_code r = 200 \<and> body r = None)))"
proof (induction n arbitrary: s)
  case 0
  then show ?case by simp
next
  case (Suc n)
  obtain r s1 where b: "poll_body srv cfg c jid t s = (r, s1)"
    by (cases "poll_body srv cfg c jid t s")
  show ?case
  proof (cases r)
    case (Inl x)
    with b poll_body_raised [of srv cfg c jid t s x s1] show ?thesis by auto
  next
    case (Inr link)
    from poll_body_found [of srv cfg c jid t s link s1] b Inr
    obtain r0 evs where e: "trace s1 = trace s @ Http (status_request cfg c jid) (Some r0) # evs"
      and l: "link \<noteq> JNull \<longrightarrow> status_code r0 = 200 \<and> document_url r0 = Inr link"
      by auto
    show ?thesis
    proof (cases "link = JNull")
      case True
      from poll_for_pdf_trace [of srv cfg c jid t n s1] obtain evs' where
        t: "trace (final (poll_for_pdf srv cfg c jid t n s1)) = trace s1 @ evs'" by blast
      have "resolved_in (drop (length (trace s)) (trace s')) (status_request cfg c jid) v"
        if "poll_for_pdf srv cfg c jid t n s1 = Returned v s'"
      proof -
        from that t have "trace s' = trace s1 @ evs'" by simp
        moreover from that Suc.IH [of s1]
        have "resolved_in (drop (length (trace s1)) (trace s')) (status_request cfg c jid) v"
          by simp
        ultimately have "drop (length (trace s)) (trace s') =
            (Http (status_request cfg c jid) (Some r0) # evs) @ drop (length (trace s1)) (trace s')"
          using e by simp
        with \<open>resolved_in (drop (length (trace s1)) (trace s')) (status_request cfg c jid) v\<close>
        show ?thesis by (simp add: resolved_in_append del: append.simps)
      qed
      with True b Inr Suc.IH [of s1] show ?thesis by simp
    next
      case False
      with b Inr e l show ?thesis by (auto simp: resolved_in_def)
    qed
  qed
qed

lemma poll_for_pdf_unbounded:
  assumes "\<forall>w. not_ready (fst (srv w (status_request cfg c jid)))"
  shows "poll_for_pdf srv cfg c jid t n s = Running (final (poll_for_pdf srv cfg c jid t n s))
       \<and> count_sent (status_request cfg c jid) (trace (final (poll_for_pdf srv cfg c jid t n s))) =
           count_sent (status_request cfg c jid) (trace s) + n"
proof (induction n arbitrary: s)
  case 0
  then show ?case by simp
next
  case (Suc n)
  obtain r s1 where b: "poll_body srv cfg c jid t s = (r, s1)"
    by (cases "poll_body srv cfg c jid t s")
  from assms have "not_ready (fst (srv (server s) (status_request cfg c jid)))" by blast
  from poll_body_not_ready [where srv = srv and s = s and t = t, OF this] b
  have r: "r = Inr JNull" by simp
  from poll_body_count [of cfg c jid srv t s] b
  have "count_sent (status_request cfg c jid) (trace s1) =
      Suc (count_sent (status_request cfg c jid) (trace s))" by simp
  with b r Suc.IH [of s1] show ?case by simp
qed

lemma post_template_job_eq:
  "post_template_job srv cfg c template entry s =
     ((case fst (srv (server s) (creation_request cfg c template entry)) of
         None \<Rightarrow> Inl TransportError | Some r \<Rightarrow> Inr r),
      after_send srv (creation_request cfg c template entry) s)"
  by (simp add: post_template_job_def post_job_def client_post_def creation_request_def job_request_def
      send_eq after_send_def)

lemma job_id_of_error:
  "job_id_of r = Inl e \<Longrightarrow> e = JSONDecodeError \<or> e = AttributeError"
proof -
  have "dict_get j k = Inl e \<Longrightarrow> e = AttributeError" for j k
    by (cases j) auto
  then show "job_id_of r = Inl e \<Longrightarrow> e = JSONDecodeError \<or> e = AttributeError"
    by (auto simp: job_id_of_def response_json_def split: option.splits sum.splits)
qed

lemma add_task_simps [simp]:
  "fst (Progress_add_task s) = length (progress s)"
  "trace (snd (Progress_add_task s)) = trace s"
  "server (snd (Progress_add_task s)) = server s"
  "progress (snd (Progress_add_task s)) = progress s @ [0]"
  by (simp_all add: Progress_add_task_def)

lemma create_jobs_Cons:
  "create_jobs srv cfg c template (entry # rest) jobs s =
     (case fst (srv (server s) (creation_request cfg c template entry)) of
        None \<Rightarrow>
          (Inl TransportError,
           after_send srv (creation_request cfg c template entry) (snd (Progress_add_task s)))
      | Some job_req \<Rightarrow>
          (case job_id_of job_req of
             Inl e \<Rightarrow>
               (Inl e, after_send srv (creation_request cfg c template entry) (snd (Progress_add_task s)))
           | Inr jid \<Rightarrow>
               create_jobs srv cfg c template rest
                 (jobs @ [\<lparr>p_job_id = jid, p_task = length (progress s), p_link = JNull\<rparr>])
                 (after_send srv (creation_request cfg c template entry) (snd (Progress_add_task s)))))"
  by (simp add: Progress_add_task_def post_template_job_eq split: option.splits sum.splits)

declare create_jobs.simps(2) [simp del]

lemma create_jobs_run:
  "create_jobs srv cfg c template entries jobs s = (r, s') \<Longrightarrow>
   \<exists>anss. length anss \<le> length entries
     \<and> trace s' = trace s @ creation_events cfg c template entries anss
     \<and> (\<forall>a \<in> set (butlast anss). a \<noteq> None)
     \<and> (case r of
          Inl e \<Rightarrow> anss \<noteq> [] \<and> (last anss = None) = (e = TransportError)
        | Inr jobs' \<Rightarrow>
            length anss = length entries \<and> (\<forall>a \<in> set anss. a \<noteq> None)
            \<and> (\<exists>new. jobs' = jobs @ new \<and> length new = length entries
                 \<and> (\<forall>i<length entries. p_link (new ! i) = JNull
                       \<and> (\<exists>job_req. anss ! i = Some job_req
                             \<and> job_id_of job_req = Inr (p_job_id (new ! i))))))"
proof (induction entries arbitrary: jobs s)
  case Nil
  then show ?case by (auto simp: creation_events_def)
next
  case (Cons entry rest)
  let ?rq = "creation_request cfg c template entry"
  let ?s2 = "after_send srv ?rq (snd (Progress_add_task s))"
  show ?case
  proof (cases "fst (srv (server s) ?rq)")
    case None
    with Cons.prems have "r = Inl TransportError" "s' = ?s2"
      by (simp_all add: create_jobs_Cons)
    with None show ?thesis
      by (intro exI [of _ "[None]"]) (simp add: creation_events_def)
  next
    case (Some job_req)
    show ?thesis
    proof (cases "job_id_of job_req")
      case (Inl e)
      with Some Cons.prems have "r = Inl e" "s' = ?s2"
        by (simp_all add: create_jobs_Cons)
      moreover from Inl have "e \<noteq> TransportError"
        by (auto dest: job_id_of_error)
      ultimately show ?thesis using Some
        by (intro exI [of _ "[Some job_req]"]) (simp add: creation_events_def)
    next
      case (Inr jid)
      let ?p = "\<lparr>p_job_id = jid, p_task = length (progress s), p_link = JNull\<rparr>"
      from Some Inr Cons.prems
      have "create_jobs srv cfg c template rest (jobs @ [?p]) ?s2 = (r, s')"
        by (simp add: create_jobs_Cons)
      from Cons.IH [OF this] obtain anss where
        len: "length anss \<le> length rest"
        and tr: "trace s' = trace ?s2 @ creation_events cfg c template rest anss"
        and bl: "\<forall>a \<in> set (butlast anss). a \<noteq> None"
        and rr: "(case r of
          Inl e \<Rightarrow> anss \<noteq> [] \<and> (last anss = None) = (e = TransportError)
        | Inr jobs' \<Rightarrow>
            length anss = length rest \<and> (\<forall>a \<in> set anss. a \<noteq> None)
            \<and> (\<exists>new. jobs' = (jobs @ [?p]) @ new \<and> length new = length rest
                 \<and> (\<forall>i<length rest. p_link (new ! i) = JNull
                       \<and> (\<exists>job_req. anss ! i = Some job_req
                             \<and> job_id_of job_req = Inr (p_job_id (new ! i))))))"
        by blast
      let ?anss = "Some job_req # anss"
      have 1: "length ?anss \<le> length (entry # rest)" using len by simp
      have 2: "trace s' = trace s @ creation_events cfg c template (entry # rest) ?anss"
        using tr Some by (simp add: creation_events_def)
      have 3: "\<forall>a \<in> set (butlast ?anss). a \<noteq> None" using bl by auto
      have 4: "(case r of
          Inl e \<Rightarrow> ?anss \<noteq> [] \<and> (last ?anss = None) = (e = TransportError)
        | Inr jobs' \<Rightarrow>
            length ?anss = length (entry # rest) \<and> (\<forall>a \<in> set ?anss. a \<noteq> None)
            \<and> (\<exists>new. jobs' = jobs @ new \<and> length new = length (entry # rest)
                 \<and> (\<forall>i<length (entry # rest). p_link (new ! i) = JNull
                       \<and> (\<exists>job_req. ?anss ! i = Some job_req
                             \<and> job_id_of job_req = Inr (p_job_id (new ! i))))))"
      proof (cases r)
        case (Inl e)
        with rr show ?thesis by auto
      next
        case (Inr jobs')
        with rr obtain new where n: "jobs' = (jobs @ [?p]) @ new" "length new = length rest"
          "\<forall>i<length rest. p_link (new ! i) = JNull
                       \<and> (\<exists>job_req. anss ! i = Some job_req
                             \<and> job_id_of job_req = Inr (p_job_id (new ! i)))"
          and la: "length anss = length rest" "\<forall>a \<in> set anss. a \<noteq> None"
          by auto
        have "\<forall>i<length (entry # rest). p_link ((?p # new) ! i) = JNull
                       \<and> (\<exists>job_req. ?anss ! i = Some job_req
                             \<and> job_id_of job_req = Inr (p_job_id ((?p # new) ! i)))"
        proof (intro allI impI)
          fix i assume "i < length (entry # rest)"
          then show "p_link ((?p # new) ! i) = JNull
                       \<and> (\<exists>job_req. ?anss ! i = Some job_req
                             \<and> job_id_of job_req = Inr (p_job_id ((?p # new) ! i)))"
            using n(3) \<open>job_id_of job_req = Inr jid\<close> by (cases i) auto
        qed
        with n la Inr show ?thesis
          by (auto intro!: exI [of _ "?p # new"])
      qed
      from 1 2 3 4 show ?thesis by blast
    qed
  qed
qed

lemma gather_done:
  "list_all (\<lambda>p. p_link p \<noteq> JNull) ps \<Longrightarrow>
     gather srv cfg c sched ps s = Returned (map p_link ps) s"
  by (cases sched) simp_all

lemma gather_pending:
  "\<not> list_all (\<lambda>p. p_link p \<noteq> JNull) ps \<Longrightarrow> i < length ps \<Longrightarrow> p_link (ps ! i) = JNull \<Longrightarrow>
     gather srv cfg c (i # sched) ps s =
       (case poll_body srv cfg c (p_job_id (ps ! i)) (p_task (ps ! i)) s of
          (Inl e, s') \<Rightarrow> Raised e s'
        | (Inr v, s') \<Rightarrow> gather srv cfg c sched (ps[i := (ps ! i)\<lparr>p_link := v\<rparr>]) s')"
  by simp

lemma gather_skip:
  "\<not> list_all (\<lambda>p. p_link p \<noteq> JNull) ps \<Longrightarrow> \<not> (i < length ps \<and> p_link (ps ! i) = JNull) \<Longrightarrow>
     gather srv cfg c (i # sched) ps s = gather srv cfg c sched ps s"
  by auto

lemma is_poll_event_simps [simp]:
  "is_poll_event (Http (status_request cfg c jid) a)"
  "is_poll_event (Slept d)"
  by (simp_all add: is_poll_event_def status_request_def get_request_def)

lemma run_ok_prepend:
  assumes "run_ok evs out" and "\<forall>rq. Http rq None \<notin> set pre"
  shows "run_ok (pre @ evs) out"
proof (cases out)
  case (Raised e s')
  with assms(1) have ne: "evs \<noteq> []" by (simp add: run_ok_def)
  then have "butlast (pre @ evs) = pre @ butlast evs" "last (pre @ evs) = last evs"
    by (simp_all add: butlast_append)
  with assms Raised ne show ?thesis by (auto simp: run_ok_def)
qed (use assms in \<open>auto simp: run_ok_def\<close>)

lemma gather_run:
  "\<exists>evs. trace (final (gather srv cfg c sched ps s)) = trace s @ evs
     \<and> list_all is_poll_event evs
     \<and> run_ok evs (gather srv cfg c sched ps s)"
proof (induction sched arbitrary: ps s)
  case Nil
  show ?case by (simp add: run_ok_def)
next
  case (Cons i sched)
  show ?case
  proof (cases "list_all (\<lambda>p. p_link p \<noteq> JNull) ps")
    case True
    then show ?thesis by (simp add: gather_done run_ok_def)
  next
    case notdone: False
    show ?thesis
    proof (cases "i < length ps \<and> p_link (ps ! i) = JNull")
      case False
      have g: "gather srv cfg c (i # sched) ps s = gather srv cfg c sched ps s"
        by (rule gather_skip [OF notdone False])
      from Cons.IH [of ps s] show ?thesis unfolding g .
    next
      case True
      let ?jid = "p_job_id (ps ! i)"
      let ?t = "p_task (ps ! i)"
      obtain r s1 where b: "poll_body srv cfg c ?jid ?t s = (r, s1)"
        by (cases "poll_body srv cfg c ?jid ?t s")
      show ?thesis
      proof (cases r)
        case (Inl e)
        with b notdone True have g: "gather srv cfg c (i # sched) ps s = Raised e s1"
          by (simp add: gather_pending)
        from poll_body_raised [of srv cfg c ?jid ?t s e s1] b Inl
        show ?thesis unfolding g by (auto simp: run_ok_def)
      next
        case (Inr v)
        let ?ps = "ps[i := (ps ! i)\<lparr>p_link := v\<rparr>]"
        from b notdone True Inr
        have g: "gather srv cfg c (i # sched) ps s = gather srv cfg c sched ?ps s1"
          by (simp add: gather_pending)
        from poll_body_found [of srv cfg c ?jid ?t s v s1] b Inr
        obtain r0 evs0 where e: "trace s1 = trace s @ Http (status_request cfg c ?jid) (Some r0) # evs0"
          and e0: "evs0 = [] \<or> evs0 = [Slept 300]" by auto
        from Cons.IH [of ?ps s1] obtain evs where
          i1: "trace (final (gather srv cfg c sched ?ps s1)) = trace s1 @ evs"
          and i2: "list_all is_poll_event evs"
          and i3: "run_ok evs (gather srv cfg c sched ?ps s1)" by blast
        let ?pre = "Http (status_request cfg c ?jid) (Some r0) # evs0"
        from e0 have "\<forall>rq. Http rq None \<notin> set ?pre" by auto
        from run_ok_prepend [OF i3 this]
        have "run_ok (?pre @ evs) (gather srv cfg c sched ?ps s1)" .
        moreover have "list_all is_poll_event (?pre @ evs)" using i2 e0 by auto
        moreover have "trace (final (gather srv cfg c sched ?ps s1)) = trace s @ ?pre @ evs"
          using i1 e by simp
        ultimately show ?thesis unfolding g by blast
      qed
    qed
  qed
qed

lemma resolved_in_drop_mono:
  assumes "trace s1 = trace s @ evs1" and "trace s' = trace s1 @ evs'"
    and "resolved_in (drop (length (trace s1)) (trace s')) rq v"
  shows "resolved_in (drop (length (trace s)) (trace s')) rq v"
proof -
  from assms(1,2) have "drop (length (trace s)) (trace s') = evs1 @ drop (length (trace s1)) (trace s')"
    by simp
  with assms(3) show ?thesis by (simp add: resolved_in_append)
qed

lemma gather_results:
  "gather srv cfg c sched ps s = Returned pdfs s' \<Longrightarrow>
     length pdfs = length ps
     \<and> (\<forall>i<length ps. pdfs ! i \<noteq> JNull
           \<and> (if p_link (ps ! i) \<noteq> JNull then pdfs ! i = p_link (ps ! i)
              else resolved_in (drop (length (trace s)) (trace s'))
                     (status_request cfg c (p_job_id (ps ! i))) (pdfs ! i)))"
proof (induction sched arbitrary: ps s)
  case Nil
  then show ?case by (auto simp: list_all_length split: if_splits)
next
  case (Cons i sched)
  show ?case
  proof (cases "list_all (\<lambda>p. p_link p \<noteq> JNull) ps")
    case True
    with Cons.prems show ?thesis by (auto simp: gather_done list_all_length)
  next
    case notdone: False
    show ?thesis
    proof (cases "i < length ps \<and> p_link (ps ! i) = JNull")
      case False
      have "gather srv cfg c (i # sched) ps s = gather srv cfg c sched ps s"
        by (rule gather_skip [OF notdone False])
      with Cons.prems have "gather srv cfg c sched ps s = Returned pdfs s'"
        by simp
      from Cons.IH [OF this] show ?thesis .
    next
      case True
      let ?jid = "p_job_id (ps ! i)"
      let ?t = "p_task (ps ! i)"
      obtain r s1 where b: "poll_body srv cfg c ?jid ?t s = (r, s1)"
        by (cases "poll_body srv cfg c ?jid ?t s")
      show ?thesis
      proof (cases r)
        case (Inl e)
        with b notdone True Cons.prems show ?thesis by (simp add: gather_pending)
      next
        case (Inr v)
        let ?ps = "ps[i := (ps ! i)\<lparr>p_link := v\<rparr>]"
        from b notdone True Inr Cons.prems
        have g: "gather srv cfg c sched ?ps s1 = Returned pdfs s'"
          by (simp add: gather_pending)
        from poll_body_found [of srv cfg c ?jid ?t s v s1] b Inr
        obtain r0 evs0 where e: "trace s1 = trace s @ Http (status_request cfg c ?jid) (Some r0) # evs0"
          and fv: "v \<noteq> JNull \<longrightarrow> status_code r0 = 200 \<and> document_url r0 = Inr v" by auto
        from gather_run [of srv cfg c sched ?ps s1] g obtain evs where
          t: "trace s' = trace s1 @ evs" by auto
        from Cons.IH [OF g] have len: "length pdfs = length ps"
          and ih: "\<And>k. k < length ps \<Longrightarrow> pdfs ! k \<noteq> JNull
           \<and> (if p_link (?ps ! k) \<noteq> JNull then pdfs ! k = p_link (?ps ! k)
              else resolved_in (drop (length (trace s1)) (trace s'))
                     (status_request cfg c (p_job_id (?ps ! k))) (pdfs ! k))"
          by auto
        have "pdfs ! k \<noteq> JNull
           \<and> (if p_link (ps ! k) \<noteq> JNull then pdfs ! k = p_link (ps ! k)
              else resolved_in (drop (length (trace s)) (trace s'))
                     (status_request cfg c (p_job_id (ps ! k))) (pdfs ! k))"
          if k: "k < length ps" for k
        proof (cases "k = i")
          case False
          with ih [OF k] resolved_in_drop_mono [OF e t]
          show ?thesis by (auto split: if_splits)
        next
          case ki: True
          show ?thesis
          proof (cases "v = JNull")
            case vn: True
            with ih [OF k] ki k resolved_in_drop_mono [OF e t] True
            show ?thesis by (auto split: if_splits)
          next
            case False
            with ih [OF k] ki k have pv: "pdfs ! k = v" by simp
            from e t have "drop (length (trace s)) (trace s') =
                [Http (status_request cfg c ?jid) (Some r0)] @ evs0 @ evs" by simp
            moreover from False fv
            have "resolved_in [Http (status_request cfg c ?jid) (Some r0)] (status_request cfg c ?jid) v"
              by (simp add: resolved_in_def)
            ultimately have "resolved_in (drop (length (trace s)) (trace s')) (status_request cfg c ?jid) v"
              by (simp only: resolved_in_append) simp
            with pv ki False True show ?thesis by simp
          qed
        qed
        with len show ?thesis by blast
      qed
    qed
  qed
qed

lemma fresh_simps [simp]:
  "trace (fresh w) = []" "progress (fresh w) = []" "server (fresh w) = w"
  by (simp_all add: fresh_def)

lemma creation_events_length:
  "length anss \<le> length entries \<Longrightarrow> length (creation_events cfg c template entries anss) = length anss"
  by (simp add: creation_events_def)

lemma creation_events_nth:
  "i < length anss \<Longrightarrow> length anss \<le> length entries \<Longrightarrow>
     creation_events cfg c template entries anss ! i = Http (creation_request cfg c template (entries ! i)) (anss ! i)"
  by (simp add: creation_events_def)

lemma creation_events_not_poll:
  "ev \<in> set (creation_events cfg c template entries anss) \<Longrightarrow> \<not> is_poll_event ev"
  by (auto simp: creation_events_def is_poll_event_def creation_request_def job_request_def post_request_def
      dest!: set_zip_leftD)

lemma in_set_not_butlast:
  assumes "x \<in> set xs" and "x \<notin> set (butlast xs)"
  shows "xs \<noteq> [] \<and> last xs = x"
proof -
  from assms(1) have ne: "xs \<noteq> []" by auto
  then have "xs = butlast xs @ [last xs]" by simp
  then have "set xs = set (butlast xs) \<union> {last xs}"
    by (metis Un_insert_right list.simps(15) set_append sup_bot.right_neutral list.set(1))
  with assms ne show ?thesis by auto
qed

lemma creation_events_failure:
  assumes "Http rq None \<in> set (creation_events cfg c template entries anss)"
    and "length anss \<le> length entries"
    and "\<forall>a \<in> set (butlast anss). a \<noteq> None"
  shows "last anss = None \<and> anss \<noteq> [] \<and> last (creation_events cfg c template entries anss) = Http rq None"
proof -
  let ?evs = "creation_events cfg c template entries anss"
  have l: "length ?evs = length anss" using assms(2) by (rule creation_events_length)
  from assms(1) obtain i where i: "i < length ?evs" "?evs ! i = Http rq None"
    by (auto simp: in_set_conv_nth)
  with l assms(2) have a: "anss ! i = None" and q: "rq = creation_request cfg c template (entries ! i)"
    by (simp_all add: creation_events_nth)
  have "i = length anss - 1"
  proof (rule ccontr)
    assume "i \<noteq> length anss - 1"
    with i l have "i < length (butlast anss)" by simp
    then have "butlast anss ! i \<in> set (butlast anss)" by (rule nth_mem)
    moreover from \<open>i < length (butlast anss)\<close> have "butlast anss ! i = anss ! i"
      by (simp add: nth_butlast)
    ultimately show False using a assms(3) by auto
  qed
  moreover from i l have ne: "anss \<noteq> []" by auto
  ultimately have "last anss = None" using a by (simp add: last_conv_nth)
  moreover from ne l have "?evs \<noteq> []" by auto
  then have "last ?evs = ?evs ! (length ?evs - 1)" by (rule last_conv_nth)
  with \<open>i = length anss - 1\<close> l i have "last ?evs = Http rq None" by simp
  ultimately show ?thesis using ne by simp
qed

lemmas fixture_defs = scripted_def ok_response_def ready_response_def created_response_def
  pending_response_def not_found_response_def html_response_def unauthorized_response_def
  refusing_def

lemmas eval_defs = document_url_def response_json_def job_id_of_def status_request_def
  get_request_def post_request_def api_url_def default_settings_def AsyncClient_def py_str_def
  poll_body_def client_get_def client_post_def send_def sleep_def Progress_update_def
  Progress_add_task_def fresh_def post_job_def post_template_job_def template_url_def
  default_template_server_def handle_post_job_def handle_post_template_jobs_def
  creation_request_def job_request_def creation_events_def

lemma poll_body_sleeps:
  assumes "Slept d \<in> set (drop (length (trace s)) (trace (snd (poll_body srv cfg c jid t s))))"
    and "t < length (progress s)"
  shows "d = 300 \<and> (\<exists>r. fst (srv (server s) (status_request cfg c jid)) = Some r
           \<and> status_code r = 200
           \<and> (document_url r = Inl KeyError \<or> document_url r = Inl TypeError))"
  using assms
  by (auto simp: poll_body_eq split: option.splits sum.splits if_splits)

lemma poll_for_pdf_busy:
  assumes "\<forall>w. \<exists>r. fst (srv w (status_request cfg c jid)) = Some r \<and> status_code r \<noteq> 200"
  shows "poll_for_pdf srv cfg c jid t n s = Running (final (poll_for_pdf srv cfg c jid t n s))
       \<and> length (drop (length (trace s)) (trace (final (poll_for_pdf srv cfg c jid t n s)))) = n
       \<and> list_all (is_request (status_request cfg c jid))
            (drop (length (trace s)) (trace (final (poll_for_pdf srv cfg c jid t n s))))"
proof (induction n arbitrary: s)
  case 0
  then show ?case by simp
next
  case (Suc n)
  from assms obtain r where r: "fst (srv (server s) (status_request cfg c jid)) = Some r"
    "status_code r \<noteq> 200" by blast
  let ?s1 = "after_send srv (status_request cfg c jid) s"
  from r have b: "poll_body srv cfg c jid t s = (Inr JNull, ?s1)"
    by (simp add: poll_body_eq)
  from poll_for_pdf_trace [of srv cfg c jid t n ?s1] obtain evs where
    e: "trace (final (poll_for_pdf srv cfg c jid t n ?s1)) = trace ?s1 @ evs" by blast
  with Suc.IH [of ?s1] have "length evs = n" "list_all (is_request (status_request cfg c jid)) evs"
    by simp_all
  with b e Suc.IH [of ?s1] show ?case by (simp add: is_request_def)
qed

lemma handle_post_job_eq:
  "handle_post_job srv cfg fuel token resource input_type w =
     (case fst (srv w (job_request cfg (AsyncClient token) resource input_type)) of
        None \<Rightarrow>
          Raised TransportError
            (after_send srv (job_request cfg (AsyncClient token) resource input_type)
               (snd (Progress_add_task (fresh w))))
      | Some job_req \<Rightarrow>
          (case job_id_of job_req of
             Inl e \<Rightarrow>
               Raised e
                 (after_send srv (job_request cfg (AsyncClient token) resource input_type)
                    (snd (Progress_add_task (fresh w))))
           | Inr jid \<Rightarrow>
               poll_for_pdf srv cfg (AsyncClient token) jid 0 fuel
                 (after_send srv (job_request cfg (AsyncClient token) resource input_type)
                    (snd (Progress_add_task (fresh w))))))"
  by (simp add: handle_post_job_def Progress_add_task_def fresh_def post_job_def client_post_def
      job_request_def send_eq after_send_def Let_def split: option.splits sum.splits)

lemma count_sent_other [simp]:
  "rq' \<noteq> rq \<Longrightarrow> count_sent rq (Http rq' a # tr) = count_sent rq tr"
  by (simp add: count_sent_def is_request_def)

lemma job_request_not_status [simp]:
  "job_request cfg c resource input_type \<noteq> status_request cfg' c' jid"
  by (simp add: job_request_def status_request_def post_request_def get_request_def)

lemma pending_zero: "(pending ps = 0) = list_all (\<lambda>p. p_link p \<noteq> JNull) ps"
  by (induction ps) (auto simp: pending_def)

lemma pending_update:
  assumes "i < length ps" and "p_link (ps ! i) = JNull"
  shows "pending (ps[i := (ps ! i)\<lparr>p_link := v\<rparr>]) = (if v = JNull then pending ps else pending ps - 1)"
    and "0 < pending ps"
proof -
  from assms(1) have u: "ps[i := (ps ! i)\<lparr>p_link := v\<rparr>] = take i ps @ (ps ! i)\<lparr>p_link := v\<rparr> # drop (Suc i) ps"
    by (rule upd_conv_take_nth_drop)
  from assms(1) have o: "ps = take i ps @ ps ! i # drop (Suc i) ps"
    by (rule id_take_nth_drop)
  have "pending ps = pending (take i ps) + 1 + pending (drop (Suc i) ps)"
    by (subst o) (simp add: pending_def assms(2))
  moreover have "pending (ps[i := (ps ! i)\<lparr>p_link := v\<rparr>]) =
      pending (take i ps) + (if v = JNull then 1 else 0) + pending (drop (Suc i) ps)"
    by (subst u) (simp add: pending_def)
  ultimately show "pending (ps[i := (ps ! i)\<lparr>p_link := v\<rparr>]) = (if v = JNull then pending ps else pending ps - 1)"
    and "0 < pending ps" by simp_all
qed

lemma poll_body_settles:
  assumes "polls_settle srv cfg c ids m" and "jid \<in> ids"
  shows "\<exists>v s1. poll_body srv cfg c jid t s = (Inr v, s1)
           \<and> (if v = JNull then m (server s1) < m (server s) else m (server s1) \<le> m (server s))"
proof -
  let ?rq = "status_request cfg c jid"
  obtain ans w' where a: "srv (server s) ?rq = (ans, w')" by (cases "srv (server s) ?rq")
  from assms(1) [unfolded polls_settle_def, rule_format, OF assms(2), of "server s"] a
  have d: "(ready_answer ans \<and> m w' \<le> m (server s)) \<or> (not_ready ans \<and> m w' < m (server s))"
    by simp
  have srv1: "server (snd (poll_body srv cfg c jid t s)) = w'"
    using a by (simp add: poll_body_server)
  from d show ?thesis
  proof
    assume r: "ready_answer ans \<and> m w' \<le> m (server s)"
    then obtain doc_req v where "ans = Some doc_req" "status_code doc_req = 200"
      "document_url doc_req = Inr v" "v \<noteq> JNull"
      by (auto simp: ready_answer_def split: option.splits sum.splits)
    with a have "fst (poll_body srv cfg c jid t s) = Inr v"
      by (simp add: poll_body_eq)
    with srv1 r \<open>v \<noteq> JNull\<close> show ?thesis
      by (cases "poll_body srv cfg c jid t s") auto
  next
    assume n: "not_ready ans \<and> m w' < m (server s)"
    with a have "not_ready (fst (srv (server s) ?rq))" by simp
    from poll_body_not_ready [where srv = srv and s = s and t = t, OF this]
    have "fst (poll_body srv cfg c jid t s) = Inr JNull" .
    with srv1 n show ?thesis
      by (cases "poll_body srv cfg c jid t s") auto
  qed
qed

lemma gather_segment:
  assumes st: "polls_settle srv cfg c ids m"
  shows "\<forall>p \<in> set ps. p_job_id p \<in> ids \<Longrightarrow>
    \<exists>ps' s'. gather srv cfg c (seg @ rest) ps s = gather srv cfg c rest ps' s'
       \<and> length ps' = length ps \<and> (\<forall>p \<in> set ps'. p_job_id p \<in> ids)
       \<and> pending ps' + m (server s') \<le> pending ps + m (server s)
       \<and> ((\<exists>i \<in> set seg. i < length ps \<and> p_link (ps ! i) = JNull) \<longrightarrow>
            pending ps' + m (server s') < pending ps + m (server s))"
proof (induction seg arbitrary: ps s)
  case Nil
  then show ?case by auto
next
  case (Cons i seg)
  show ?case
  proof (cases "list_all (\<lambda>p. p_link p \<noteq> JNull) ps")
    case True
    then have "gather srv cfg c ((i # seg) @ rest) ps s = gather srv cfg c rest ps s"
      by (simp only: gather_done)
    moreover from True have "\<not> (\<exists>j \<in> set (i # seg). j < length ps \<and> p_link (ps ! j) = JNull)"
      by (auto simp: list_all_length)
    ultimately show ?thesis using Cons.prems by blast
  next
    case notdone: False
    show ?thesis
    proof (cases "i < length ps \<and> p_link (ps ! i) = JNull")
      case False
      have g: "gather srv cfg c ((i # seg) @ rest) ps s = gather srv cfg c (seg @ rest) ps s"
        unfolding append_Cons by (rule gather_skip [OF notdone False])
      from Cons.IH [OF Cons.prems, of s] obtain ps' s' where
        ih: "gather srv cfg c (seg @ rest) ps s = gather srv cfg c rest ps' s'"
        "length ps' = length ps" "\<forall>p \<in> set ps'. p_job_id p \<in> ids"
        "pending ps' + m (server s') \<le> pending ps + m (server s)"
        "(\<exists>i \<in> set seg. i < length ps \<and> p_link (ps ! i) = JNull) \<longrightarrow>
            pending ps' + m (server s') < pending ps + m (server s)"
        by blast
      from False ih(5) have "(\<exists>j \<in> set (i # seg). j < length ps \<and> p_link (ps ! j) = JNull) \<longrightarrow>
            pending ps' + m (server s') < pending ps + m (server s)"
        by auto
      with g ih show ?thesis by metis
    next
      case True
      then have il: "i < length ps" and pl: "p_link (ps ! i) = JNull" by simp_all
      from il Cons.prems have "p_job_id (ps ! i) \<in> ids" by simp
      from poll_body_settles [OF st this, of "p_task (ps ! i)" s]
      obtain v s1 where b: "poll_body srv cfg c (p_job_id (ps ! i)) (p_task (ps ! i)) s = (Inr v, s1)"
        and dm: "if v = JNull then m (server s1) < m (server s) else m (server s1) \<le> m (server s)"
        by blast
      let ?ps = "ps[i := (ps ! i)\<lparr>p_link := v\<rparr>]"
      from b notdone True
      have g: "gather srv cfg c ((i # seg) @ rest) ps s = gather srv cfg c (seg @ rest) ?ps s1"
        by (simp add: gather_pending)
      have ids': "\<forall>p \<in> set ?ps. p_job_id p \<in> ids"
      proof
        fix p assume "p \<in> set ?ps"
        then have "p \<in> insert ((ps ! i)\<lparr>p_link := v\<rparr>) (set ps)"
          using set_update_subset_insert by fastforce
        with Cons.prems il show "p_job_id p \<in> ids" by auto
      qed
      from pending_update(1) [OF il pl, of v] pending_update(2) [OF il pl] dm
      have dec: "pending ?ps + m (server s1) < pending ps + m (server s)"
        by (auto split: if_splits)
      from Cons.IH [OF ids', of s1] obtain ps' s' where
        ih: "gather srv cfg c (seg @ rest) ?ps s1 = gather srv cfg c rest ps' s'"
        "length ps' = length ?ps" "\<forall>p \<in> set ps'. p_job_id p \<in> ids"
        "pending ps' + m (server s') \<le> pending ?ps + m (server s1)"
        by blast
      with g dec show ?thesis
        by (intro exI [of _ ps'] exI [of _ s']) simp
    qed
  qed
qed

lemma gather_returns:
  assumes st: "polls_settle srv cfg c ids m"
  shows "\<forall>p \<in> set ps. p_job_id p \<in> ids \<Longrightarrow>
    \<forall>seg \<in> set segs. \<forall>i<length ps. i \<in> set seg \<Longrightarrow>
    pending ps + m (server s) \<le> length segs \<Longrightarrow>
    \<exists>pdfs s'. gather srv cfg c (concat segs) ps s = Returned pdfs s'"
proof (induction segs arbitrary: ps s)
  case Nil
  then have "pending ps = 0" by simp
  then show ?case by (simp add: pending_zero)
next
  case (Cons seg segs)
  show ?case
  proof (cases "list_all (\<lambda>p. p_link p \<noteq> JNull) ps")
    case True
    then show ?thesis by (simp only: gather_done) blast
  next
    case False
    then obtain i where i: "i < length ps" "p_link (ps ! i) = JNull"
      by (auto simp: list_all_length)
    with Cons.prems(2) have "i \<in> set seg" by simp
    with i have ex: "\<exists>i \<in> set seg. i < length ps \<and> p_link (ps ! i) = JNull" by blast
    from gather_segment [OF st Cons.prems(1), of seg "concat segs" s] ex
    obtain ps' s' where
      g: "gather srv cfg c (seg @ concat segs) ps s = gather srv cfg c (concat segs) ps' s'"
      and l: "length ps' = length ps" and ids': "\<forall>p \<in> set ps'. p_job_id p \<in> ids"
      and dec: "pending ps' + m (server s') < pending ps + m (server s)"
      by blast
    from dec Cons.prems(3) have "pending ps' + m (server s') \<le> length segs" by simp
    moreover from Cons.prems(2) l have "\<forall>seg \<in> set segs. \<forall>i<length ps'. i \<in> set seg" by simp
    ultimately obtain pdfs s'' where "gather srv cfg c (concat segs) ps' s' = Returned pdfs s''"
      using Cons.IH [OF ids'] by blast
    with g show ?thesis by simp
  qed
qed

lemma create_jobs_returns:
  assumes ca: "creations_answered srv cfg c template data ids m"
  shows "set entries \<subseteq> set data \<Longrightarrow>
    \<exists>jobs' s'. create_jobs srv cfg c template entries jobs s = (Inr jobs', s')
       \<and> m (server s') \<le> m (server s)
       \<and> (\<exists>new. jobs' = jobs @ new \<and> length new = length entries
             \<and> (\<forall>p \<in> set new. p_job_id p \<in> ids \<and> p_link p = JNull))"
proof (induction entries arbitrary: jobs s)
  case Nil
  then show ?case by simp
next
  case (Cons entry rest)
  let ?rq = "creation_request cfg c template entry"
  let ?s2 = "after_send srv ?rq (snd (Progress_add_task s))"
  from Cons.prems have "entry \<in> set data" by simp
  from ca [unfolded creations_answered_def, rule_format, OF this, of "server s"]
  obtain r jid where a: "fst (srv (server s) ?rq) = Some r"
    and j: "job_id_of r = Inr jid" "jid \<in> ids"
    and mm: "m (snd (srv (server s) ?rq)) \<le> m (server s)"
    by (cases "srv (server s) ?rq") (auto split: option.splits sum.splits)
  let ?p = "\<lparr>p_job_id = jid, p_task = length (progress s), p_link = JNull\<rparr>"
  from a j have c: "create_jobs srv cfg c template (entry # rest) jobs s =
      create_jobs srv cfg c template rest (jobs @ [?p]) ?s2"
    by (simp add: create_jobs_Cons)
  from Cons.prems have "set rest \<subseteq> set data" by simp
  from Cons.IH [OF this, of "jobs @ [?p]" ?s2] obtain jobs' s' new where
    ih: "create_jobs srv cfg c template rest (jobs @ [?p]) ?s2 = (Inr jobs', s')"
    "m (server s') \<le> m (server ?s2)"
    "jobs' = (jobs @ [?p]) @ new" "length new = length rest"
    "\<forall>p \<in> set new. p_job_id p \<in> ids \<and> p_link p = JNull"
    by blast
  have "m (server ?s2) \<le> m (server s)" using mm by simp
  with c ih j show ?case
    by (intro exI [of _ jobs'] exI [of _ s'] conjI exI [of _ "?p # new"]) auto
qed

lemma answer_cases:
  "ans = None \<or> (\<exists>r. ans = Some r \<and> status_code r = 200 \<and> body r = None)
   \<or> ready_answer ans \<or> not_ready ans"
proof (cases ans)
  case None
  then show ?thesis by simp
next
  case (Some r)
  show ?thesis
  proof (cases "status_code r = 200")
    case False
    with Some show ?thesis by (simp add: not_ready_def)
  next
    case True
    show ?thesis
    proof (cases "document_url r")
      case (Inl e)
      from document_url_error [OF Inl] Inl Some True show ?thesis
        by (auto simp: not_ready_def)
    next
      case (Inr v)
      with Some True show ?thesis
        by (cases "v = JNull") (simp_all add: not_ready_def ready_answer_def)
    qed
  qed
qed

lemma poll_pass_fails:
  assumes "fst (srv (server s) (status_request cfg c jid)) = None"
  shows "poll_for_pdf srv cfg c jid t (Suc n) s =
           Raised TransportError (after_send srv (status_request cfg c jid) s)"
  using assms by (simp add: poll_body_eq)

lemma poll_pass_undecodable:
  assumes "fst (srv (server s) (status_request cfg c jid)) = Some r"
    and "status_code r = 200" and "body r = None"
  shows "poll_for_pdf srv cfg c jid t (Suc n) s =
           Raised JSONDecodeError (after_send srv (status_request cfg c jid) s)"
  using assms by (simp add: poll_body_eq document_url_def response_json_def)

lemma poll_pass_ready:
  assumes "ready_answer (fst (srv (server s) (status_request cfg c jid)))"
  shows "\<exists>v s1. poll_for_pdf srv cfg c jid t (Suc n) s = Returned v s1 \<and> v \<noteq> JNull"
  using assms
  by (auto simp: ready_answer_def poll_body_eq split: option.splits sum.splits)

lemma poll_pass_not_ready:
  assumes "not_ready (fst (srv (server s) (status_request cfg c jid)))"
  shows "fst (poll_body srv cfg c jid t s) = Inr JNull
       \<and> poll_for_pdf srv cfg c jid t (Suc n) s =
           poll_for_pdf srv cfg c jid t n (snd (poll_body srv cfg c jid t s))"
proof -
  from poll_body_not_ready [where srv = srv and s = s and t = t, OF assms]
  have "fst (poll_body srv cfg c jid t s) = Inr JNull" .
  then show ?thesis by (cases "poll_body srv cfg c jid t s") simp
qed

lemma batch_results_singleton:
  assumes "handle_post_template_jobs srv cfg sched token template [data] w = Returned pdfs s'"
  shows "length pdfs = 1"
proof -
  let ?c = "AsyncClient token"
  obtain r s where cj: "create_jobs srv cfg ?c template [data] [] (fresh w) = (r, s)"
    by (cases "create_jobs srv cfg ?c template [data] [] (fresh w)")
  from assms cj obtain jobs where r: "r = Inr jobs"
    and g: "gather srv cfg ?c sched jobs s = Returned pdfs s'"
    by (cases r) (simp_all add: handle_post_template_jobs_def)
  from create_jobs_run [OF cj] r have "length jobs = 1" by auto
  with gather_results [OF g] show ?thesis by simp
qed

section \<open>The properties\<close>

subsection \<open>C1: the batch returns one result for each entry, in the order of the entries\<close>

text \<open>
  Claim C1. Whatever the schedule, when \<open>handle_post_template_jobs\<close> returns for \<open>N\<close>
  data entries, the list it returns has length \<open>N\<close>, and for every \<open>i < N\<close> the value at
  position \<open>i\<close> belongs to the job created from entry \<open>i\<close>: the \<open>i\<close>-th exchange of the
  run is the creation request for \<open>data ! i\<close>, its answer holds a job id, and among the
  exchanges after the \<open>N\<close> creations a status request for that job id was answered with
  status 200 and that value at \<open>document.url\<close>. The schedule says in which order the
  poll loops run and end, and it is arbitrary here.

  And the batch does return such a list. Let the service answer every creation with a
  job id, and every status request for such an id with a document URL or with an answer
  after which the loop goes on, the latter a bounded number of times (a measure \<open>m\<close> of
  its state that such an answer lowers and no answer raises). Then under every schedule
  that lets every poller run often enough, in whatever order (the schedule is made of at
  least \<open>N + m w\<close> segments, each naming every poller), the batch returns a list with
  the properties above. The job ids are ones the HTTP library sends as they are.
\<close>

theorem batch_results_follow_input_order:
  "(handle_post_template_jobs srv cfg sched token template data w = Returned pdfs s' \<longrightarrow>
       length pdfs = length data
       \<and> (\<forall>i<length data.
            \<exists>job_req jid.
              trace s' ! i = Http (creation_request cfg (AsyncClient token) template (data ! i)) (Some job_req)
            \<and> job_id_of job_req = Inr jid
            \<and> pdfs ! i \<noteq> JNull
            \<and> resolved_in (drop (length data) (trace s')) (status_request cfg (AsyncClient token) jid) (pdfs ! i)))
   \<and> ((\<forall>jid \<in> ids. sendable_id jid)
        \<and> creations_answered srv cfg (AsyncClient token) template data ids m
        \<and> polls_settle srv cfg (AsyncClient token) ids m
        \<and> (\<forall>seg \<in> set segs. \<forall>i<length data. i \<in> set seg)
        \<and> length data + m w \<le> length segs \<longrightarrow>
       (\<exists>res fin.
          handle_post_template_jobs srv cfg (concat segs) token template data w = Returned res fin
        \<and> length res = length data
       \<and> (\<forall>i<length data.
            \<exists>job_req jid.
              trace fin ! i = Http (creation_request cfg (AsyncClient token) template (data ! i)) (Some job_req)
            \<and> job_id_of job_req = Inr jid
            \<and> res ! i \<noteq> JNull
            \<and> resolved_in (drop (length data) (trace fin)) (status_request cfg (AsyncClient token) jid) (res ! i))))"
  (is "(?A \<longrightarrow> ?P) \<and> (?H \<longrightarrow> ?Q)")
proof -
  have ordered: "length pdfs = length data
       \<and> (\<forall>i<length data.
            \<exists>job_req jid.
              trace s' ! i = Http (creation_request cfg (AsyncClient token) template (data ! i)) (Some job_req)
            \<and> job_id_of job_req = Inr jid
            \<and> pdfs ! i \<noteq> JNull
            \<and> resolved_in (drop (length data) (trace s')) (status_request cfg (AsyncClient token) jid) (pdfs ! i))"
    if r: "handle_post_template_jobs srv cfg sched token template data w = Returned pdfs s'"
    for sched pdfs s'
  proof -
    let ?c = "AsyncClient token"
    obtain r s where cj: "create_jobs srv cfg ?c template data [] (fresh w) = (r, s)"
      by (cases "create_jobs srv cfg ?c template data [] (fresh w)")
    from r cj obtain jobs where r: "r = Inr jobs"
      and g: "gather srv cfg ?c sched jobs s = Returned pdfs s'"
      by (cases r) (simp_all add: handle_post_template_jobs_def)
    from create_jobs_run [OF cj] r obtain anss where
      len: "length anss = length data"
      and tr: "trace s = creation_events cfg ?c template data anss"
      and lj: "length jobs = length data"
      and js: "\<forall>i<length data. p_link (jobs ! i) = JNull
                         \<and> (\<exists>job_req. anss ! i = Some job_req
                               \<and> job_id_of job_req = Inr (p_job_id (jobs ! i)))"
      by auto
    from gather_run [of srv cfg ?c sched jobs s] g obtain evs where
      t: "trace s' = trace s @ evs" by auto
    have ls: "length (trace s) = length data"
      using tr len by (simp add: creation_events_length)
    from gather_results [OF g] lj have lp: "length pdfs = length data"
      and gr: "\<And>i. i < length data \<Longrightarrow> pdfs ! i \<noteq> JNull
             \<and> (if p_link (jobs ! i) \<noteq> JNull then pdfs ! i = p_link (jobs ! i)
                else resolved_in (drop (length (trace s)) (trace s'))
                       (status_request cfg ?c (p_job_id (jobs ! i))) (pdfs ! i))"
      by auto
    have "\<exists>job_req jid.
                trace s' ! i = Http (creation_request cfg ?c template (data ! i)) (Some job_req)
              \<and> job_id_of job_req = Inr jid
              \<and> pdfs ! i \<noteq> JNull
              \<and> resolved_in (drop (length data) (trace s')) (status_request cfg ?c jid) (pdfs ! i)"
      if i: "i < length data" for i
    proof -
      from js i obtain job_req where a: "anss ! i = Some job_req"
        and j: "job_id_of job_req = Inr (p_job_id (jobs ! i))" and pl: "p_link (jobs ! i) = JNull"
        by blast
      from i ls t have "trace s' ! i = trace s ! i" by (simp add: nth_append)
      with tr i len a have "trace s' ! i = Http (creation_request cfg ?c template (data ! i)) (Some job_req)"
        by (simp add: creation_events_nth)
      with gr [OF i] pl j ls show ?thesis by auto
    qed
    with lp show ?thesis by blast
  qed
  have returns: "\<exists>res fin.
      handle_post_template_jobs srv cfg (concat segs) token template data w = Returned res fin"
    if ca: "creations_answered srv cfg (AsyncClient token) template data ids m"
      and st: "polls_settle srv cfg (AsyncClient token) ids m"
      and fair: "\<forall>seg \<in> set segs. \<forall>i<length data. i \<in> set seg"
      and long: "length data + m w \<le> length segs"
  proof -
    let ?c = "AsyncClient token"
    from create_jobs_returns [OF ca, of data "[]" "fresh w"]
    obtain jobs s where cj: "create_jobs srv cfg ?c template data [] (fresh w) = (Inr jobs, s)"
      and ms: "m (server s) \<le> m w" and lj: "length jobs = length data"
      and pj: "\<forall>p \<in> set jobs. p_job_id p \<in> ids \<and> p_link p = JNull"
      by auto
    have "pending jobs \<le> length jobs" by (simp add: pending_def)
    with ms lj long have "pending jobs + m (server s) \<le> length segs" by simp
    moreover from pj have "\<forall>p \<in> set jobs. p_job_id p \<in> ids" by simp
    moreover from fair lj have "\<forall>seg \<in> set segs. \<forall>i<length jobs. i \<in> set seg" by simp
    ultimately obtain res fin where "gather srv cfg ?c (concat segs) jobs s = Returned res fin"
      using gather_returns [OF st] by blast
    with cj show ?thesis by (simp add: handle_post_template_jobs_def)
  qed
  show ?thesis
  proof (rule conjI)
    show "?A \<longrightarrow> ?P" by (rule impI) (rule ordered)
  next
    show "?H \<longrightarrow> ?Q"
    proof (rule impI)
      assume h: ?H
      with returns obtain res fin where
        rf: "handle_post_template_jobs srv cfg (concat segs) token template data w = Returned res fin"
        by blast
      from ordered [OF rf] rf show ?Q by blast
    qed
  qed
qed

theorem batch_results_follow_input_order_witness:
  "handle_post_template_jobs (scripted None) default_settings [0, Suc 0, 0] ''tok'' ''invoice''
     [JObj [(''a'', JNum 1)], JObj [(''a'', JNum 2)]]
     [Some (created_response ''abc''), Some (created_response ''def''), Some pending_response,
      Some (ready_response ''url2''), Some (ready_response ''url1'')] =
   Returned [JStr ''url1'', JStr ''url2'']
     \<lparr>server = [], progress = [100, 100],
      trace =
        [Http (creation_request default_settings (AsyncClient ''tok'') ''invoice'' (JObj [(''a'', JNum 1)]))
           (Some (created_response ''abc'')),
         Http (creation_request default_settings (AsyncClient ''tok'') ''invoice'' (JObj [(''a'', JNum 2)]))
           (Some (created_response ''def'')),
         Http (status_request default_settings (AsyncClient ''tok'') (JStr ''abc'')) (Some pending_response),
         Slept 300,
         Http (status_request default_settings (AsyncClient ''tok'') (JStr ''def''))
           (Some (ready_response ''url2'')),
         Http (status_request default_settings (AsyncClient ''tok'') (JStr ''abc''))
           (Some (ready_response ''url1''))]\<rparr>
   \<and> length [JStr ''url1'', JStr ''url2''] = length [JObj [(''a'', JNum 1)], JObj [(''a'', JNum 2)]]
   \<and> resolved_in
        [Http (status_request default_settings (AsyncClient ''tok'') (JStr ''abc'')) (Some pending_response),
         Slept 300,
         Http (status_request default_settings (AsyncClient ''tok'') (JStr ''def''))
           (Some (ready_response ''url2'')),
         Http (status_request default_settings (AsyncClient ''tok'') (JStr ''abc''))
           (Some (ready_response ''url1''))]
        (status_request default_settings (AsyncClient ''tok'') (JStr ''abc'')) (JStr ''url1'')
   \<and> resolved_in
        [Http (status_request default_settings (AsyncClient ''tok'') (JStr ''abc'')) (Some pending_response),
         Slept 300,
         Http (status_request default_settings (AsyncClient ''tok'') (JStr ''def''))
           (Some (ready_response ''url2'')),
         Http (status_request default_settings (AsyncClient ''tok'') (JStr ''abc''))
           (Some (ready_response ''url1''))]
        (status_request default_settings (AsyncClient ''tok'') (JStr ''def'')) (JStr ''url2'')
   \<and> sendable_id (JStr ''abc'') \<and> sendable_id (JStr ''def'')
   \<and> handle_post_template_jobs two_jobs default_settings
        (concat [[Suc 0, 0], [0, Suc 0], [Suc 0, 0]]) ''tok'' ''invoice''
        [JObj [(''a'', JNum 1)], JObj [(''a'', JNum 2)]] (Suc 0) =
      Returned [JStr ''https://papero.io/api/v1/jobs/abc.pdf'', JStr ''https://papero.io/api/v1/jobs/def.pdf'']
        \<lparr>server = 0, progress = [100, 100],
         trace =
           [Http (creation_request default_settings (AsyncClient ''tok'') ''invoice'' (JObj [(''a'', JNum 1)]))
              (Some (created_response ''abc'')),
            Http (creation_request default_settings (AsyncClient ''tok'') ''invoice'' (JObj [(''a'', JNum 2)]))
              (Some (created_response ''def'')),
            Http (status_request default_settings (AsyncClient ''tok'') (JStr ''def'')) (Some pending_response),
            Slept 300,
            Http (status_request default_settings (AsyncClient ''tok'') (JStr ''abc''))
              (Some (ready_response ''https://papero.io/api/v1/jobs/abc.pdf'')),
            Http (status_request default_settings (AsyncClient ''tok'') (JStr ''def''))
              (Some (ready_response ''https://papero.io/api/v1/jobs/def.pdf''))]\<rparr>"
proof -
  let ?c = "AsyncClient ''tok''"
  let ?ids = "{JStr ''abc'', JStr ''def''}"
  let ?segs = "[[Suc 0, 0], [0, Suc 0], [Suc 0, 0]]"
  have sendable: "\<forall>jid \<in> ?ids. sendable_id jid"
    by (simp add: sendable_id_def py_str_def id_char_def)
  have answered: "creations_answered two_jobs default_settings ?c ''invoice''
      [JObj [(''a'', JNum 1)], JObj [(''a'', JNum 2)]] ?ids (\<lambda>k. k)"
    by (simp add: creations_answered_def two_jobs_def creation_request_def job_request_def
        post_request_def created_response_def ok_response_def job_id_of_def response_json_def)
  have settle: "polls_settle two_jobs default_settings ?c ?ids (\<lambda>k. k)"
    by (auto simp: polls_settle_def two_jobs_def status_request_def get_request_def
        ready_answer_def not_ready_def ready_response_def pending_response_def ok_response_def
        document_url_def response_json_def)
  have fair: "\<forall>seg \<in> set ?segs. \<forall>i<length [JObj [(''a'', JNum 1)], JObj [(''a'', JNum 2)]]. i \<in> set seg"
    by (auto simp: less_Suc_eq)
  have long: "length [JObj [(''a'', JNum 1)], JObj [(''a'', JNum 2)]] + (\<lambda>k. k) (Suc 0) \<le> length ?segs"
    by simp
  note live = batch_results_follow_input_order [where srv = two_jobs and cfg = default_settings
      and token = "''tok''" and template = "''invoice''"
      and data = "[JObj [(''a'', JNum 1)], JObj [(''a'', JNum 2)]]" and ids = ?ids
      and m = "\<lambda>k. k" and w = "Suc 0" and segs = ?segs, THEN conjunct2, THEN mp,
      OF conjI [OF sendable conjI [OF answered conjI [OF settle conjI [OF fair long]]]]]
  have run2: "handle_post_template_jobs two_jobs default_settings (concat ?segs) ''tok'' ''invoice''
        [JObj [(''a'', JNum 1)], JObj [(''a'', JNum 2)]] (Suc 0) =
      Returned [JStr ''https://papero.io/api/v1/jobs/abc.pdf'', JStr ''https://papero.io/api/v1/jobs/def.pdf'']
        \<lparr>server = 0, progress = [100, 100],
         trace =
           [Http (creation_request default_settings ?c ''invoice'' (JObj [(''a'', JNum 1)]))
              (Some (created_response ''abc'')),
            Http (creation_request default_settings ?c ''invoice'' (JObj [(''a'', JNum 2)]))
              (Some (created_response ''def'')),
            Http (status_request default_settings ?c (JStr ''def'')) (Some pending_response),
            Slept 300,
            Http (status_request default_settings ?c (JStr ''abc''))
              (Some (ready_response ''https://papero.io/api/v1/jobs/abc.pdf'')),
            Http (status_request default_settings ?c (JStr ''def''))
              (Some (ready_response ''https://papero.io/api/v1/jobs/def.pdf''))]\<rparr>"
    by (simp add: fixture_defs two_jobs_def eval_defs create_jobs.simps json_encode_str_def
        json_escape_char_def dquote_def backslash_def str_int_def str_nat.simps)
  let ?data = "[JObj [(''a'', JNum 1)], JObj [(''a'', JNum 2)]]"
  let ?w = "[Some (created_response ''abc''), Some (created_response ''def''), Some pending_response,
      Some (ready_response ''url2''), Some (ready_response ''url1'')]"
  let ?polls = "[Http (status_request default_settings (AsyncClient ''tok'') (JStr ''abc'')) (Some pending_response),
         Slept 300,
         Http (status_request default_settings (AsyncClient ''tok'') (JStr ''def''))
           (Some (ready_response ''url2'')),
         Http (status_request default_settings (AsyncClient ''tok'') (JStr ''abc''))
           (Some (ready_response ''url1''))]"
  let ?s = "\<lparr>server = [], progress = [100, 100],
      trace =
        [Http (creation_request default_settings (AsyncClient ''tok'') ''invoice'' (JObj [(''a'', JNum 1)]))
           (Some (created_response ''abc'')),
         Http (creation_request default_settings (AsyncClient ''tok'') ''invoice'' (JObj [(''a'', JNum 2)]))
           (Some (created_response ''def''))] @ ?polls\<rparr>"
  have run: "handle_post_template_jobs (scripted None) default_settings [0, Suc 0, 0] ''tok'' ''invoice''
      ?data ?w = Returned [JStr ''url1'', JStr ''url2''] ?s"
    by (simp add: fixture_defs eval_defs create_jobs.simps)
  note th = batch_results_follow_input_order [THEN conjunct1, THEN mp, OF run]
  from th have len: "length [JStr ''url1'', JStr ''url2''] = length ?data"
    by (rule conjunct1)
  from th [THEN conjunct2, THEN spec, of 0]
  have "resolved_in ?polls (status_request default_settings (AsyncClient ''tok'') (JStr ''abc'')) (JStr ''url1'')"
    by (auto simp: fixture_defs job_id_of_def response_json_def)
  moreover from th [THEN conjunct2, THEN spec, of "Suc 0"]
  have "resolved_in ?polls (status_request default_settings (AsyncClient ''tok'') (JStr ''def'')) (JStr ''url2'')"
    by (auto simp: fixture_defs job_id_of_def response_json_def)
  moreover from live run2
  have "length [JStr ''https://papero.io/api/v1/jobs/abc.pdf'', JStr ''https://papero.io/api/v1/jobs/def.pdf''] =
      length ?data"
    by auto
  ultimately show ?thesis using run len run2 sendable by simp
qed

subsection \<open>C2: a status answer with a document URL ends the loop\<close>



subsection \<open>C3: a 200 answer without the document URL\<close>

text \<open>
  Claim C3, as the specification states it, fails: a 200 answer whose body is not JSON
  lacks the field too, and \<open>doc_req.json()\<close> raises a decode error that the handler for
  \<open>KeyError\<close> and \<open>TypeError\<close> does not catch, so the poller raises.
\<close>

theorem poll_for_pdf_raises_on_undecodable_body:
  "poll_for_pdf (scripted None) default_settings (AsyncClient ''tok'') (JStr ''abc'') 0 3
        \<lparr>server = [Some html_response], progress = [0], trace = []\<rparr> =
      Raised JSONDecodeError
        \<lparr>server = [], progress = [0],
         trace = [Http (status_request default_settings (AsyncClient ''tok'') (JStr ''abc''))
                    (Some html_response)]\<rparr>"
  by (simp add: fixture_defs eval_defs numeral_3_eq_3)

text \<open>
  Claim C3, amended. If the service answers the status request with status 200 and a
  body that is JSON but has no value at \<open>document.url\<close>, the pass through the loop ends
  with \<open>pdf_link\<close> still \<open>None\<close> and no exception, after a sleep of 0.3 seconds; the
  loop goes on, and what it does next is the same status request again.
\<close>

theorem poll_for_pdf_waits_on_incomplete_body:
  assumes "srv (server s) (status_request cfg c jid) = (Some doc_req, w')"
    and "status_code doc_req = 200"
    and "body doc_req = Some j"
    and "\<forall>v. document_url doc_req \<noteq> Inr v"
  shows "poll_body srv cfg c jid t s =
           (Inr JNull,
            s\<lparr>server := w',
              trace := trace s @ [Http (status_request cfg c jid) (Some doc_req), Slept 300]\<rparr>)
         \<and> poll_for_pdf srv cfg c jid t (Suc n) s =
             poll_for_pdf srv cfg c jid t n
               (s\<lparr>server := w',
                  trace := trace s @ [Http (status_request cfg c jid) (Some doc_req), Slept 300]\<rparr>)
         \<and> (\<exists>evs. trace (final (poll_for_pdf srv cfg c jid t (Suc (Suc n)) s)) =
               trace s @ [Http (status_request cfg c jid) (Some doc_req), Slept 300,
                          Http (status_request cfg c jid) (fst (srv w' (status_request cfg c jid)))] @ evs)"
proof -
  let ?s1 = "s\<lparr>server := w',
      trace := trace s @ [Http (status_request cfg c jid) (Some doc_req), Slept 300]\<rparr>"
  from assms(4) obtain e where e: "document_url doc_req = Inl e"
    by (cases "document_url doc_req") auto
  with assms(3) have "e = KeyError \<or> e = TypeError"
    by (auto dest: document_url_error)
  with assms e have b: "poll_body srv cfg c jid t s = (Inr JNull, ?s1)"
    by (auto simp: poll_body_eq after_send_def sleep_def)
  then have p: "poll_for_pdf srv cfg c jid t (Suc m) s = poll_for_pdf srv cfg c jid t m ?s1" for m
    by simp
  from poll_for_pdf_first_event [of srv cfg c jid t n ?s1]
  have "\<exists>evs. trace (final (poll_for_pdf srv cfg c jid t (Suc n) ?s1)) =
      trace s @ [Http (status_request cfg c jid) (Some doc_req), Slept 300,
                 Http (status_request cfg c jid) (fst (srv w' (status_request cfg c jid)))] @ evs"
    by simp
  with b p show ?thesis by simp
qed

theorem poll_for_pdf_waits_on_incomplete_body_witness:
  "body pending_response = Some (JObj [])
   \<and> document_url pending_response = Inl KeyError
   \<and> trace (final (poll_for_pdf (scripted None) default_settings (AsyncClient ''tok'') (JStr ''abc'') 0 (Suc (Suc 0))
        \<lparr>server = [Some pending_response, Some (ready_response ''u'')], progress = [0], trace = []\<rparr>)) =
      [Http (status_request default_settings (AsyncClient ''tok'') (JStr ''abc'')) (Some pending_response),
       Slept 300,
       Http (status_request default_settings (AsyncClient ''tok'') (JStr ''abc'')) (Some (ready_response ''u''))]"
  using poll_for_pdf_waits_on_incomplete_body [of "scripted None"
      "\<lparr>server = [Some pending_response, Some (ready_response ''u'')], progress = [0], trace = []\<rparr>"
      default_settings "AsyncClient ''tok''" "JStr ''abc''" pending_response "[Some (ready_response ''u'')]"
      "JObj []" 0 0]
  by (simp add: fixture_defs eval_defs)

subsection \<open>C4: a transport failure ends the poll loop and the whole batch\<close>

text \<open>
  Claim C4. A status request that fails at the transport level makes \<open>poll_for_pdf\<close>
  raise at once, with that exchange as its last event and no retry. For a batch,
  whatever the schedule: if any exchange of the run, a creation or a status request of
  any job, failed at the transport level, then the batch raised the transport's
  exception, it returned no list, and the failed exchange is the last event of the run.
\<close>

theorem transport_failure_aborts_batch:
  "(fst (srv (server s) (status_request cfg c jid)) = None \<longrightarrow>
      poll_for_pdf srv cfg c jid t (Suc n) s =
        Raised TransportError
          (s\<lparr>server := snd (srv (server s) (status_request cfg c jid)),
             trace := trace s @ [Http (status_request cfg c jid) None]\<rparr>))
   \<and> (Http rq None \<in> set (trace (final (handle_post_template_jobs srv cfg sched token template data w))) \<longrightarrow>
      handle_post_template_jobs srv cfg sched token template data w =
           Raised TransportError (final (handle_post_template_jobs srv cfg sched token template data w))
       \<and> last (trace (final (handle_post_template_jobs srv cfg sched token template data w))) = Http rq None)"
proof (intro conjI impI)
  assume "fst (srv (server s) (status_request cfg c jid)) = None"
  then show "poll_for_pdf srv cfg c jid t (Suc n) s =
        Raised TransportError
          (s\<lparr>server := snd (srv (server s) (status_request cfg c jid)),
             trace := trace s @ [Http (status_request cfg c jid) None]\<rparr>)"
    by (simp add: poll_body_eq after_send_def)
next
  assume f: "Http rq None \<in> set (trace (final (handle_post_template_jobs srv cfg sched token template data w)))"
  let ?c = "AsyncClient token"
  let ?out = "handle_post_template_jobs srv cfg sched token template data w"
  obtain r s0 where cj: "create_jobs srv cfg ?c template data [] (fresh w) = (r, s0)"
    by (cases "create_jobs srv cfg ?c template data [] (fresh w)")
  from create_jobs_run [OF cj] obtain anss where
    len: "length anss \<le> length data"
    and tr: "trace s0 = creation_events cfg ?c template data anss"
    and bl: "\<forall>a \<in> set (butlast anss). a \<noteq> None"
    and rr: "(case r of
          Inl e \<Rightarrow> anss \<noteq> [] \<and> (last anss = None) = (e = TransportError)
        | Inr jobs' \<Rightarrow>
            length anss = length data \<and> (\<forall>a \<in> set anss. a \<noteq> None)
            \<and> (\<exists>new. jobs' = [] @ new \<and> length new = length data
                 \<and> (\<forall>i<length data. p_link (new ! i) = JNull
                       \<and> (\<exists>job_req. anss ! i = Some job_req
                             \<and> job_id_of job_req = Inr (p_job_id (new ! i))))))"
    by auto
  have "handle_post_template_jobs srv cfg sched token template data w =
           Raised TransportError (final (handle_post_template_jobs srv cfg sched token template data w))
       \<and> last (trace (final (handle_post_template_jobs srv cfg sched token template data w))) = Http rq None"
    (is ?goal)
  proof (cases r)
    case (Inl e)
    with cj have out: "?out = Raised e s0"
      by (simp add: handle_post_template_jobs_def)
    from Inl rr have le: "(last anss = None) = (e = TransportError)" by auto
    from f out tr have "Http rq None \<in> set (creation_events cfg ?c template data anss)" by simp
    from creation_events_failure [OF this len bl] le out tr show ?goal by simp
  next
    case (Inr jobs)
    with cj have out: "?out = gather srv cfg ?c sched jobs s0"
      by (simp add: handle_post_template_jobs_def)
    from Inr rr have ok: "\<forall>a \<in> set anss. a \<noteq> None" by auto
    have nocr: "Http rq None \<notin> set (creation_events cfg ?c template data anss)"
    proof
      assume "Http rq None \<in> set (creation_events cfg ?c template data anss)"
      from creation_events_failure [OF this len bl] ok show False
        by (metis last_in_set)
    qed
    from gather_run [of srv cfg ?c sched jobs s0] obtain evs where
      g1: "trace (final (gather srv cfg ?c sched jobs s0)) = trace s0 @ evs"
      and g3: "run_ok evs (gather srv cfg ?c sched jobs s0)" by blast
    from f out g1 tr nocr have mem: "Http rq None \<in> set evs" by auto
    show ?goal
    proof (cases "gather srv cfg ?c sched jobs s0")
      case (Raised e s')
      with g3 have ne: "evs \<noteq> []" and nb: "\<forall>rq. Http rq None \<notin> set (butlast evs)"
        and iff: "(\<exists>rq. last evs = Http rq None) = (e = TransportError)"
        by (simp_all add: run_ok_def)
      from in_set_not_butlast [OF mem] nb have "last evs = Http rq None" by blast
      with iff ne g1 out Raised show ?goal by auto
    next
      case (Returned v s')
      with g3 mem show ?goal by (simp add: run_ok_def)
    next
      case (Running s')
      with g3 mem show ?goal by (simp add: run_ok_def)
    qed
  qed
  then show "handle_post_template_jobs srv cfg sched token template data w =
           Raised TransportError (final (handle_post_template_jobs srv cfg sched token template data w))"
    and "last (trace (final (handle_post_template_jobs srv cfg sched token template data w))) = Http rq None"
    by blast+
qed

theorem transport_failure_aborts_batch_witness:
  "poll_for_pdf (scripted None) default_settings (AsyncClient ''tok'') (JStr ''abc'') 0 (Suc 4)
        \<lparr>server = [None, Some (ready_response ''u'')], progress = [0], trace = []\<rparr> =
      Raised TransportError
        \<lparr>server = [Some (ready_response ''u'')], progress = [0],
         trace = [Http (status_request default_settings (AsyncClient ''tok'') (JStr ''abc'')) None]\<rparr>
   \<and> handle_post_template_jobs (scripted None) default_settings [0, Suc 0, 0] ''tok'' ''invoice''
        [JObj [(''a'', JNum 1)], JObj [(''a'', JNum 2)]]
        [Some (created_response ''abc''), Some (created_response ''def''),
         Some (ready_response ''url1''), None, Some (ready_response ''url2'')] =
      Raised TransportError
        \<lparr>server = [Some (ready_response ''url2'')], progress = [100, 0],
         trace =
           [Http (creation_request default_settings (AsyncClient ''tok'') ''invoice'' (JObj [(''a'', JNum 1)]))
              (Some (created_response ''abc'')),
            Http (creation_request default_settings (AsyncClient ''tok'') ''invoice'' (JObj [(''a'', JNum 2)]))
              (Some (created_response ''def'')),
            Http (status_request default_settings (AsyncClient ''tok'') (JStr ''abc''))
              (Some (ready_response ''url1'')),
            Http (status_request default_settings (AsyncClient ''tok'') (JStr ''def'')) None]\<rparr>"
proof -
  let ?s = "\<lparr>server = [None, Some (ready_response ''u'')], progress = [0], trace = []\<rparr>"
  let ?data = "[JObj [(''a'', JNum 1)], JObj [(''a'', JNum 2)]]"
  let ?w = "[Some (created_response ''abc''), Some (created_response ''def''),
         Some (ready_response ''url1''), None, Some (ready_response ''url2'')]"
  let ?rq = "status_request default_settings (AsyncClient ''tok'') (JStr ''def'')"
  have run: "trace (final (handle_post_template_jobs (scripted None) default_settings [0, Suc 0, 0] ''tok''
      ''invoice'' ?data ?w)) =
      [Http (creation_request default_settings (AsyncClient ''tok'') ''invoice'' (JObj [(''a'', JNum 1)]))
              (Some (created_response ''abc'')),
       Http (creation_request default_settings (AsyncClient ''tok'') ''invoice'' (JObj [(''a'', JNum 2)]))
              (Some (created_response ''def'')),
       Http (status_request default_settings (AsyncClient ''tok'') (JStr ''abc''))
              (Some (ready_response ''url1'')),
       Http ?rq None]"
    and fin: "final (handle_post_template_jobs (scripted None) default_settings [0, Suc 0, 0] ''tok''
      ''invoice'' ?data ?w) =
      \<lparr>server = [Some (ready_response ''url2'')], progress = [100, 0],
         trace =
           [Http (creation_request default_settings (AsyncClient ''tok'') ''invoice'' (JObj [(''a'', JNum 1)]))
              (Some (created_response ''abc'')),
            Http (creation_request default_settings (AsyncClient ''tok'') ''invoice'' (JObj [(''a'', JNum 2)]))
              (Some (created_response ''def'')),
            Http (status_request default_settings (AsyncClient ''tok'') (JStr ''abc''))
              (Some (ready_response ''url1'')),
            Http ?rq None]\<rparr>"
    by (simp_all add: fixture_defs eval_defs create_jobs.simps)
  have "fst (scripted None (server ?s) (status_request default_settings (AsyncClient ''tok'') (JStr ''abc''))) = None"
    by (simp add: scripted_def)
  moreover have "Http ?rq None \<in> set (trace (final (handle_post_template_jobs (scripted None)
      default_settings [0, Suc 0, 0] ''tok'' ''invoice'' ?data ?w)))"
    unfolding run by simp
  ultimately show ?thesis
    using transport_failure_aborts_batch [of "scripted None" ?s default_settings "AsyncClient ''tok''"
        "JStr ''abc''" 0 4 ?rq "[0, Suc 0, 0]" "''tok''" "''invoice''" ?data ?w]
    by (simp add: fin scripted_def)
qed

subsection \<open>C5: the resource of a template job\<close>

text \<open>
  Claim C5, as the specification states it, fails: the JSON text of the entry is put
  into the query string as \<open>json.dumps\<close> gives it, not URL-encoded. For the entry
  \<open>{"a": 1}\<close> the resource ends in \<open>?data={"a": 1}\<close>, with the braces, the double quotes
  and the space a URL-encoding would have replaced.
\<close>

theorem template_url_not_urlencoded:
  "template_url ''invoice'' (JObj [(''a'', JNum 1)]) default_template_server =
     ''https://demo.papero.io/templates/invoice?data={'' @ [dquote] @ ''a'' @ [dquote] @ '': 1}''
   \<and> template_url ''invoice'' (JObj [(''a'', JNum 1)]) default_template_server \<noteq>
       default_template_server @ ''/invoice?data='' @ spec_urlencode (json_dumps (JObj [(''a'', JNum 1)]))"
  by (simp add: template_url_def default_template_server_def json_encode_str_def
      json_escape_char_def dquote_def backslash_def str_int_def str_nat.simps spec_urlencode_def
      url_unreserved_def)

text \<open>
  Claim C5, amended. For every template name and data entry, the job that
  \<open>post_template_job\<close> creates is posted to \<open>{PAPERO_SERVER}/api/v1/jobs/\<close> with
  \<open>input_type = "url"\<close> and the resource
  \<open>https://demo.papero.io/templates/{template}?data={json}\<close>, where \<open>{json}\<close> is the
  text \<open>json.dumps\<close> gives for the entry, put there as it is. The template server is the
  fixed demo endpoint whatever \<open>PAPERO_SERVER\<close> is.
\<close>

theorem post_template_job_resource:
  "post_template_job srv cfg c template data s =
     send srv
       \<lparr>verb = POST, url = PAPERO_SERVER cfg @ ''/api/v1/jobs/'', headers = client_headers c,
        payload = Some (JObj
          [(''resource'',
            JStr (''https://demo.papero.io/templates/'' @ template @ ''?data='' @ json_dumps data)),
           (''input_type'', JStr ''url'')])\<rparr> s"
  by (simp add: post_template_job_def post_job_def client_post_def post_request_def api_url_def
      template_url_def default_template_server_def)

subsection \<open>C6: the wait between two polls\<close>

text \<open>
  Claim C6 asks for the fixed wait after every poll that did not end the loop. The loop
  sleeps in the handler of the \<open>try\<close> block only, which a status other than 200 never
  reaches: against a service that answers 404, two passes of the loop are two status
  requests with no sleep between them.
\<close>

theorem poll_for_pdf_404_no_wait:
  "poll_for_pdf (scripted (Some not_found_response)) default_settings (AsyncClient ''tok'') (JStr ''abc'') 0 2
        \<lparr>server = [], progress = [0], trace = []\<rparr> =
      Running
        \<lparr>server = [], progress = [0],
         trace = [Http (status_request default_settings (AsyncClient ''tok'') (JStr ''abc'')) (Some not_found_response),
                  Http (status_request default_settings (AsyncClient ''tok'') (JStr ''abc'')) (Some not_found_response)]\<rparr>"
  by (simp add: fixture_defs eval_defs numeral_2_eq_2)

subsection \<open>C7: the loop has no bound of its own\<close>

text \<open>
  Claim C7, as the specification states it, fails in one point: the loop is also left
  when a 200 answer has a body that is not JSON, which is neither a document URL found
  nor a failure of the transport. Here the creation is answered with a job id and the
  first status request with such a body.
\<close>

theorem handle_post_job_raises_on_undecodable_body:
  "handle_post_job (scripted None) default_settings 5 ''tok'' ''https://example.org'' ''url''
     [Some (created_response ''abc''), Some html_response] =
   Raised JSONDecodeError
     \<lparr>server = [], progress = [0],
      trace =
        [Http (job_request default_settings (AsyncClient ''tok'') ''https://example.org'' ''url'')
           (Some (created_response ''abc'')),
         Http (status_request default_settings (AsyncClient ''tok'') (JStr ''abc''))
           (Some html_response)]\<rparr>"
  by (simp add: fixture_defs eval_defs eval_nat_numeral)

text \<open>
  Claim C7, amended. The loop of \<open>poll_for_pdf\<close> has no timeout and no bound on its
  passes. It returns only a value other than \<open>None\<close> that a status request was
  answered with (status 200, at \<open>document.url\<close>). A status request that went out ends
  the loop in three ways and no other: such a value is found and returned; the request
  failed at the transport level, which raises; or the answer has status 200 and a body
  that is not JSON, which raises a decode error. After every other answer the pass ends
  with \<open>pdf_link\<close> still \<open>None\<close> and the loop goes on. So as long as the service
  answers the status request with other statuses or with JSON bodies without a document
  URL, the loop is still running after any number \<open>n\<close> of passes, having sent \<open>n\<close>
  status requests (for a job id the HTTP library sends as it is). In particular, when the
  answer to the creation is a JSON object without \<open>job_id\<close>, the poller gets \<open>None\<close>
  as its id, asks for \<open>.../api/v1/jobs/None\<close>, and under such a service
  \<open>handle_post_job\<close> is still running after any number of status requests. What the
  HTTP library raises before a request goes out is outside this statement.
\<close>

theorem poll_loop_has_no_bound:
  "(poll_for_pdf srv cfg c jid t n s = Returned v s' \<longrightarrow>
      v \<noteq> JNull \<and> resolved_in (drop (length (trace s)) (trace s')) (status_request cfg c jid) v)
   \<and> (fst (srv (server s) (status_request cfg c jid)) = ans \<longrightarrow>
        (ans = None \<or> (\<exists>r. ans = Some r \<and> status_code r = 200 \<and> body r = None)
         \<or> ready_answer ans \<or> not_ready ans)
        \<and> (ans = None \<longrightarrow>
              poll_for_pdf srv cfg c jid t (Suc n) s =
                Raised TransportError (after_send srv (status_request cfg c jid) s))
        \<and> ((\<exists>r. ans = Some r \<and> status_code r = 200 \<and> body r = None) \<longrightarrow>
              poll_for_pdf srv cfg c jid t (Suc n) s =
                Raised JSONDecodeError (after_send srv (status_request cfg c jid) s))
        \<and> (ready_answer ans \<longrightarrow>
              (\<exists>u s1. poll_for_pdf srv cfg c jid t (Suc n) s = Returned u s1 \<and> u \<noteq> JNull))
        \<and> (not_ready ans \<longrightarrow>
              fst (poll_body srv cfg c jid t s) = Inr JNull
              \<and> poll_for_pdf srv cfg c jid t (Suc n) s =
                  poll_for_pdf srv cfg c jid t n (snd (poll_body srv cfg c jid t s))))
   \<and> (sendable_id jid \<and> (\<forall>w. not_ready (fst (srv w (status_request cfg c jid)))) \<longrightarrow>
        poll_for_pdf srv cfg c jid t n s = Running (final (poll_for_pdf srv cfg c jid t n s))
        \<and> count_sent (status_request cfg c jid) (trace (final (poll_for_pdf srv cfg c jid t n s))) =
            count_sent (status_request cfg c jid) (trace s) + n)
   \<and> (fst (srv start (job_request cfg (AsyncClient token) resource input_type)) = Some job_req
        \<and> body job_req = Some (JObj kvs) \<and> map_of kvs ''job_id'' = None
        \<and> (\<forall>w. not_ready (fst (srv w (status_request cfg (AsyncClient token) JNull)))) \<longrightarrow>
        sendable_id JNull
        \<and> url (status_request cfg (AsyncClient token) JNull) = PAPERO_SERVER cfg @ ''/api/v1/jobs/None''
        \<and> handle_post_job srv cfg n token resource input_type start =
            Running (final (handle_post_job srv cfg n token resource input_type start))
        \<and> count_sent (status_request cfg (AsyncClient token) JNull)
            (trace (final (handle_post_job srv cfg n token resource input_type start))) = n)"
  (is "?found \<and> ?pass \<and> ?unbounded \<and> ?null_id")
proof -
  from poll_for_pdf_exits [of srv cfg c jid t n s v s' TransportError]
  have 1: ?found by blast
  have 2: ?pass
  proof (intro impI conjI)
    assume a: "fst (srv (server s) (status_request cfg c jid)) = ans"
    show "ans = None \<or> (\<exists>r. ans = Some r \<and> status_code r = 200 \<and> body r = None)
         \<or> ready_answer ans \<or> not_ready ans"
      by (rule answer_cases)
    show "poll_for_pdf srv cfg c jid t (Suc n) s =
        Raised TransportError (after_send srv (status_request cfg c jid) s)" if "ans = None"
      by (rule poll_pass_fails) (use a that in simp)
    show "poll_for_pdf srv cfg c jid t (Suc n) s =
        Raised JSONDecodeError (after_send srv (status_request cfg c jid) s)"
      if "\<exists>r. ans = Some r \<and> status_code r = 200 \<and> body r = None"
    proof -
      from that a obtain r where "fst (srv (server s) (status_request cfg c jid)) = Some r"
        "status_code r = 200" "body r = None" by auto
      then show ?thesis by (rule poll_pass_undecodable)
    qed
    show "\<exists>u s1. poll_for_pdf srv cfg c jid t (Suc n) s = Returned u s1 \<and> u \<noteq> JNull"
      if "ready_answer ans"
      by (rule poll_pass_ready) (use a that in simp)
    show "fst (poll_body srv cfg c jid t s) = Inr JNull" if "not_ready ans"
      by (rule poll_pass_not_ready [THEN conjunct1]) (use a that in simp)
    show "poll_for_pdf srv cfg c jid t (Suc n) s =
        poll_for_pdf srv cfg c jid t n (snd (poll_body srv cfg c jid t s))" if "not_ready ans"
      by (rule poll_pass_not_ready [THEN conjunct2]) (use a that in simp)
  qed
  have 3: ?unbounded
    using poll_for_pdf_unbounded [of srv cfg c jid t n s] by blast
  have sn: "sendable_id JNull"
    by (simp add: sendable_id_def py_str_def id_char_def)
  have 4: ?null_id
  proof (intro impI, elim conjE)
    assume a: "fst (srv start (job_request cfg (AsyncClient token) resource input_type)) = Some job_req"
      "body job_req = Some (JObj kvs)" "map_of kvs ''job_id'' = None"
      and nr: "\<forall>w. not_ready (fst (srv w (status_request cfg (AsyncClient token) JNull)))"
    let ?c = "AsyncClient token"
    let ?rq = "job_request cfg ?c resource input_type"
    let ?s2 = "after_send srv ?rq (snd (Progress_add_task (fresh start)))"
    from a have "job_id_of job_req = Inr JNull"
      by (simp add: job_id_of_def response_json_def)
    with a have h: "handle_post_job srv cfg n token resource input_type start =
        poll_for_pdf srv cfg ?c JNull 0 n ?s2"
      by (simp add: handle_post_job_eq)
    have u: "url (status_request cfg ?c JNull) = PAPERO_SERVER cfg @ ''/api/v1/jobs/None''"
      by (simp add: status_request_def get_request_def api_url_def py_str_def)
    have "count_sent (status_request cfg ?c JNull) (trace ?s2) = 0"
      by simp
    with nr poll_for_pdf_unbounded [of srv cfg ?c JNull 0 n ?s2] h u sn
    show "sendable_id JNull
        \<and> url (status_request cfg ?c JNull) = PAPERO_SERVER cfg @ ''/api/v1/jobs/None''
        \<and> handle_post_job srv cfg n token resource input_type start =
            Running (final (handle_post_job srv cfg n token resource input_type start))
        \<and> count_sent (status_request cfg ?c JNull)
            (trace (final (handle_post_job srv cfg n token resource input_type start))) = n"
      by simp
  qed
  from 1 2 3 4 show ?thesis by (intro conjI)
qed

theorem poll_loop_has_no_bound_witness:
  "poll_for_pdf (scripted None) default_settings (AsyncClient ''tok'') (JStr ''abc'') 0 3
        \<lparr>server = [Some pending_response, Some (ready_response ''u'')], progress = [0], trace = []\<rparr> =
      Returned (JStr ''u'')
        \<lparr>server = [], progress = [100],
         trace = [Http (status_request default_settings (AsyncClient ''tok'') (JStr ''abc'')) (Some pending_response),
                  Slept 300,
                  Http (status_request default_settings (AsyncClient ''tok'') (JStr ''abc''))
                    (Some (ready_response ''u''))]\<rparr>
   \<and> poll_for_pdf (scripted None) default_settings (AsyncClient ''tok'') (JStr ''abc'') 0 (Suc 2)
        \<lparr>server = [None], progress = [0], trace = []\<rparr> =
      Raised TransportError
        \<lparr>server = [], progress = [0],
         trace = [Http (status_request default_settings (AsyncClient ''tok'') (JStr ''abc'')) None]\<rparr>
   \<and> poll_for_pdf (scripted None) default_settings (AsyncClient ''tok'') (JStr ''abc'') 0 (Suc 2)
        \<lparr>server = [Some html_response], progress = [0], trace = []\<rparr> =
      Raised JSONDecodeError
        \<lparr>server = [], progress = [0],
         trace = [Http (status_request default_settings (AsyncClient ''tok'') (JStr ''abc''))
                    (Some html_response)]\<rparr>
   \<and> ready_answer (Some (ready_response ''u''))
   \<and> not_ready (Some pending_response)
   \<and> fst (poll_body (scripted None) default_settings (AsyncClient ''tok'') (JStr ''abc'') 0
        \<lparr>server = [Some pending_response], progress = [0], trace = []\<rparr>) = Inr JNull
   \<and> sendable_id (JStr ''abc'')
   \<and> poll_for_pdf refusing default_settings (AsyncClient ''tok'') (JStr ''abc'') 0 3
        \<lparr>server = (), progress = [0], trace = []\<rparr> =
      Running
        \<lparr>server = (), progress = [0],
         trace = [Http (status_request default_settings (AsyncClient ''tok'') (JStr ''abc'')) (Some not_found_response),
                  Http (status_request default_settings (AsyncClient ''tok'') (JStr ''abc'')) (Some not_found_response),
                  Http (status_request default_settings (AsyncClient ''tok'') (JStr ''abc'')) (Some not_found_response)]\<rparr>
   \<and> sendable_id JNull
   \<and> url (status_request default_settings (AsyncClient ''tok'') JNull) = ''https://papero.io/api/v1/jobs/None''
   \<and> handle_post_job refusing default_settings 3 ''tok'' ''https://example.org'' ''url'' () =
      Running
        \<lparr>server = (), progress = [0],
         trace =
           [Http (job_request default_settings (AsyncClient ''tok'') ''https://example.org'' ''url'')
              (Some unauthorized_response),
            Http (status_request default_settings (AsyncClient ''tok'') JNull) (Some not_found_response),
            Http (status_request default_settings (AsyncClient ''tok'') JNull) (Some not_found_response),
            Http (status_request default_settings (AsyncClient ''tok'') JNull) (Some not_found_response)]\<rparr>
   \<and> count_sent (status_request default_settings (AsyncClient ''tok'') JNull)
        (trace (final (handle_post_job refusing default_settings 3 ''tok'' ''https://example.org'' ''url'' ()))) = 3"
proof -
  let ?c = "AsyncClient ''tok''"
  let ?rq = "status_request default_settings ?c (JStr ''abc'')"
  let ?s1 = "\<lparr>server = [Some pending_response, Some (ready_response ''u'')], progress = [0::nat], trace = []\<rparr>"
  let ?s1' = "\<lparr>server = [], progress = [100::nat],
         trace = [Http ?rq (Some pending_response), Slept 300, Http ?rq (Some (ready_response ''u''))]\<rparr>"
  let ?sf = "\<lparr>server = [None :: response option], progress = [0::nat], trace = []\<rparr>"
  let ?sh = "\<lparr>server = [Some html_response], progress = [0::nat], trace = []\<rparr>"
  let ?sr = "\<lparr>server = [Some (ready_response ''u'')], progress = [0::nat], trace = []\<rparr>"
  let ?sp = "\<lparr>server = [Some pending_response], progress = [0::nat], trace = []\<rparr>"
  let ?su = "\<lparr>server = (), progress = [0::nat], trace = []\<rparr>"
  note T = poll_loop_has_no_bound [where cfg = default_settings and c = ?c and t = 0]
  have a: "poll_for_pdf (scripted None) default_settings ?c (JStr ''abc'') 0 3 ?s1 = Returned (JStr ''u'') ?s1'"
    by (simp add: fixture_defs eval_defs eval_nat_numeral)
  from a T [where srv = "scripted None" and jid = "JStr ''abc''" and n = 3 and s = ?s1
      and v = "JStr ''u''" and s' = ?s1']
  have found: "JStr ''u'' \<noteq> JNull" by blast
  have hf: "fst (scripted None (server ?sf) ?rq) = None"
    and hh: "fst (scripted None (server ?sh) ?rq) = Some html_response"
      "status_code html_response = 200" "body html_response = None"
    and hr: "fst (scripted None (server ?sr) ?rq) = Some (ready_response ''u'')"
      "ready_answer (Some (ready_response ''u''))"
    and hp: "fst (scripted None (server ?sp) ?rq) = Some pending_response"
      "not_ready (Some pending_response)"
    by (simp_all add: fixture_defs ready_answer_def not_ready_def document_url_def response_json_def)
  from hf T [where srv = "scripted None" and jid = "JStr ''abc''" and n = 2 and s = ?sf and ans = None]
  have f: "poll_for_pdf (scripted None) default_settings ?c (JStr ''abc'') 0 (Suc 2) ?sf =
      Raised TransportError (after_send (scripted None) ?rq ?sf)"
    by blast
  from hh T [where srv = "scripted None" and jid = "JStr ''abc''" and n = 2 and s = ?sh
      and ans = "Some html_response"]
  have h: "poll_for_pdf (scripted None) default_settings ?c (JStr ''abc'') 0 (Suc 2) ?sh =
      Raised JSONDecodeError (after_send (scripted None) ?rq ?sh)"
    by blast
  from hr T [where srv = "scripted None" and jid = "JStr ''abc''" and n = 2 and s = ?sr
      and ans = "Some (ready_response ''u'')"]
  have r: "\<exists>u s1. poll_for_pdf (scripted None) default_settings ?c (JStr ''abc'') 0 (Suc 2) ?sr =
      Returned u s1 \<and> u \<noteq> JNull"
    by blast
  from hp T [where srv = "scripted None" and jid = "JStr ''abc''" and n = 2 and s = ?sp
      and ans = "Some pending_response"]
  have p: "fst (poll_body (scripted None) default_settings ?c (JStr ''abc'') 0 ?sp) = Inr JNull"
    by blast
  have sa: "sendable_id (JStr ''abc'')"
    by (simp add: sendable_id_def py_str_def id_char_def)
  have nra: "\<forall>w. not_ready (fst (refusing w ?rq))"
    and nr: "\<forall>w. not_ready (fst (refusing w (status_request default_settings ?c JNull)))"
    by (simp_all add: not_ready_def fixture_defs status_request_def get_request_def)
  from sa nra T [where srv = refusing and jid = "JStr ''abc''" and n = 3 and s = ?su]
  have u: "poll_for_pdf refusing default_settings ?c (JStr ''abc'') 0 3 ?su =
      Running (final (poll_for_pdf refusing default_settings ?c (JStr ''abc'') 0 3 ?su))"
    by blast
  have cr: "fst (refusing () (job_request default_settings ?c ''https://example.org'' ''url'')) =
      Some unauthorized_response"
    "body unauthorized_response = Some (JObj [(''detail'', JStr ''Not authenticated'')])"
    "map_of [(''detail'', JStr ''Not authenticated'')] ''job_id'' = None"
    by (simp_all add: fixture_defs job_request_def post_request_def)
  from nr cr T [where srv = refusing and n = 3 and start = "()" and token = "''tok''"
      and resource = "''https://example.org''" and input_type = "''url''"
      and job_req = unauthorized_response and kvs = "[(''detail'', JStr ''Not authenticated'')]"]
  have n1: "sendable_id JNull"
    and n2: "url (status_request default_settings ?c JNull) = PAPERO_SERVER default_settings @ ''/api/v1/jobs/None''"
    and n3: "count_sent (status_request default_settings ?c JNull)
        (trace (final (handle_post_job refusing default_settings 3 ''tok'' ''https://example.org'' ''url'' ()))) = 3"
    by blast+
  have runs: "poll_for_pdf refusing default_settings ?c (JStr ''abc'') 0 3 ?su =
      Running
        \<lparr>server = (), progress = [0],
         trace = [Http ?rq (Some not_found_response), Http ?rq (Some not_found_response),
                  Http ?rq (Some not_found_response)]\<rparr>"
    "handle_post_job refusing default_settings 3 ''tok'' ''https://example.org'' ''url'' () =
      Running
        \<lparr>server = (), progress = [0],
         trace =
           [Http (job_request default_settings ?c ''https://example.org'' ''url'')
              (Some unauthorized_response),
            Http (status_request default_settings ?c JNull) (Some not_found_response),
            Http (status_request default_settings ?c JNull) (Some not_found_response),
            Http (status_request default_settings ?c JNull) (Some not_found_response)]\<rparr>"
    by (simp_all add: fixture_defs eval_defs eval_nat_numeral)
  from f have f': "poll_for_pdf (scripted None) default_settings ?c (JStr ''abc'') 0 (Suc 2) ?sf =
      Raised TransportError \<lparr>server = [], progress = [0], trace = [Http ?rq None]\<rparr>"
    by (simp add: after_send_def scripted_def)
  from h have h': "poll_for_pdf (scripted None) default_settings ?c (JStr ''abc'') 0 (Suc 2) ?sh =
      Raised JSONDecodeError \<lparr>server = [], progress = [0], trace = [Http ?rq (Some html_response)]\<rparr>"
    by (simp add: after_send_def scripted_def)
  from a f' h' hr(2) hp(2) p sa runs n1 n2 n3 show ?thesis
    by (simp add: default_settings_def)
qed

subsection \<open>C8: a status other than 200 is followed by the next request with no delay\<close>

text \<open>
  Claim C8. After an answer to the status request whose status is not 200, the pass
  through the loop ends with no sleep and with \<open>pdf_link\<close> still \<open>None\<close>, so the next
  event is the same status request again. A pass sleeps (0.3 seconds) only after a 200
  answer whose body is JSON without a value at \<open>document.url\<close> (for a task the progress
  display holds, as in both callers). Against a service that answers every status
  request with a status other than 200, the loop is still running after \<open>n\<close> passes
  and all it did is \<open>n\<close> status requests, with no sleep among them.
\<close>

theorem non_200_polls_again_without_delay:
  "(srv (server s) (status_request cfg c jid) = (Some doc_req, w') \<and> status_code doc_req \<noteq> 200 \<longrightarrow>
      poll_body srv cfg c jid t s =
        (Inr JNull, s\<lparr>server := w', trace := trace s @ [Http (status_request cfg c jid) (Some doc_req)]\<rparr>)
      \<and> poll_for_pdf srv cfg c jid t (Suc n) s =
          poll_for_pdf srv cfg c jid t n
            (s\<lparr>server := w', trace := trace s @ [Http (status_request cfg c jid) (Some doc_req)]\<rparr>)
      \<and> (\<exists>evs. trace (final (poll_for_pdf srv cfg c jid t (Suc (Suc n)) s)) =
             trace s @ [Http (status_request cfg c jid) (Some doc_req),
                        Http (status_request cfg c jid) (fst (srv w' (status_request cfg c jid)))] @ evs))
   \<and> (t < length (progress s)
        \<and> Slept d \<in> set (drop (length (trace s)) (trace (snd (poll_body srv cfg c jid t s)))) \<longrightarrow>
      d = 300 \<and> (\<exists>r. fst (srv (server s) (status_request cfg c jid)) = Some r
           \<and> status_code r = 200
           \<and> (document_url r = Inl KeyError \<or> document_url r = Inl TypeError)))
   \<and> ((\<forall>w. \<exists>r. fst (srv w (status_request cfg c jid)) = Some r \<and> status_code r \<noteq> 200) \<longrightarrow>
      poll_for_pdf srv cfg c jid t n s = Running (final (poll_for_pdf srv cfg c jid t n s))
       \<and> length (drop (length (trace s)) (trace (final (poll_for_pdf srv cfg c jid t n s)))) = n
       \<and> list_all (is_request (status_request cfg c jid))
            (drop (length (trace s)) (trace (final (poll_for_pdf srv cfg c jid t n s)))))"
proof (intro conjI impI)
  assume a: "srv (server s) (status_request cfg c jid) = (Some doc_req, w') \<and> status_code doc_req \<noteq> 200"
  let ?s1 = "s\<lparr>server := w', trace := trace s @ [Http (status_request cfg c jid) (Some doc_req)]\<rparr>"
  from a show b: "poll_body srv cfg c jid t s = (Inr JNull, ?s1)"
    by (simp add: poll_body_eq after_send_def)
  then show "poll_for_pdf srv cfg c jid t (Suc n) s = poll_for_pdf srv cfg c jid t n ?s1"
    by simp
  from poll_for_pdf_first_event [of srv cfg c jid t n ?s1] b
  show "\<exists>evs. trace (final (poll_for_pdf srv cfg c jid t (Suc (Suc n)) s)) =
             trace s @ [Http (status_request cfg c jid) (Some doc_req),
                        Http (status_request cfg c jid) (fst (srv w' (status_request cfg c jid)))] @ evs"
    by simp
next
  assume "t < length (progress s)
        \<and> Slept d \<in> set (drop (length (trace s)) (trace (snd (poll_body srv cfg c jid t s))))"
  then have "d = 300 \<and> (\<exists>r. fst (srv (server s) (status_request cfg c jid)) = Some r
           \<and> status_code r = 200
           \<and> (document_url r = Inl KeyError \<or> document_url r = Inl TypeError))"
    using poll_body_sleeps by blast
  then show "d = 300" and "\<exists>r. fst (srv (server s) (status_request cfg c jid)) = Some r
           \<and> status_code r = 200
           \<and> (document_url r = Inl KeyError \<or> document_url r = Inl TypeError)" by blast+
next
  assume a: "\<forall>w. \<exists>r. fst (srv w (status_request cfg c jid)) = Some r \<and> status_code r \<noteq> 200"
  from a poll_for_pdf_busy [of srv cfg c jid t n s]
  show "poll_for_pdf srv cfg c jid t n s = Running (final (poll_for_pdf srv cfg c jid t n s))"
    and "length (drop (length (trace s)) (trace (final (poll_for_pdf srv cfg c jid t n s)))) = n"
    and "list_all (is_request (status_request cfg c jid))
            (drop (length (trace s)) (trace (final (poll_for_pdf srv cfg c jid t n s))))"
    by blast+
qed

theorem non_200_polls_again_without_delay_witness:
  "status_code not_found_response \<noteq> 200
   \<and> poll_body refusing default_settings (AsyncClient ''tok'') (JStr ''abc'') 0
        \<lparr>server = (), progress = [0], trace = []\<rparr> =
      (Inr JNull,
       \<lparr>server = (), progress = [0],
        trace = [Http (status_request default_settings (AsyncClient ''tok'') (JStr ''abc''))
                   (Some not_found_response)]\<rparr>)
   \<and> Slept 300 \<in> set (trace (snd (poll_body (scripted None) default_settings (AsyncClient ''tok'') (JStr ''abc'') 0
        \<lparr>server = [Some pending_response], progress = [0], trace = []\<rparr>)))
   \<and> document_url pending_response = Inl KeyError
   \<and> poll_for_pdf refusing default_settings (AsyncClient ''tok'') (JStr ''abc'') 0 3
        \<lparr>server = (), progress = [0], trace = []\<rparr> =
      Running
        \<lparr>server = (), progress = [0],
         trace = [Http (status_request default_settings (AsyncClient ''tok'') (JStr ''abc'')) (Some not_found_response),
                  Http (status_request default_settings (AsyncClient ''tok'') (JStr ''abc'')) (Some not_found_response),
                  Http (status_request default_settings (AsyncClient ''tok'') (JStr ''abc'')) (Some not_found_response)]\<rparr>"
proof -
  let ?c = "AsyncClient ''tok''"
  let ?s = "\<lparr>server = (), progress = [0::nat], trace = []\<rparr>"
  let ?sp = "\<lparr>server = [Some pending_response], progress = [0::nat], trace = []\<rparr>"
  have h1: "refusing (server ?s) (status_request default_settings ?c (JStr ''abc'')) = (Some not_found_response, ())
      \<and> status_code not_found_response \<noteq> 200"
    by (simp add: fixture_defs status_request_def get_request_def)
  have h2: "0 < length (progress ?sp)
      \<and> Slept 300 \<in> set (drop (length (trace ?sp))
           (trace (snd (poll_body (scripted None) default_settings ?c (JStr ''abc'') 0 ?sp))))"
    by (simp add: fixture_defs eval_defs)
  have h3: "\<forall>w. \<exists>r. fst (refusing w (status_request default_settings ?c (JStr ''abc''))) = Some r
      \<and> status_code r \<noteq> 200"
    by (simp add: fixture_defs status_request_def get_request_def)
  have run: "poll_for_pdf refusing default_settings ?c (JStr ''abc'') 0 3 ?s =
      Running
        \<lparr>server = (), progress = [0],
         trace = [Http (status_request default_settings ?c (JStr ''abc'')) (Some not_found_response),
                  Http (status_request default_settings ?c (JStr ''abc'')) (Some not_found_response),
                  Http (status_request default_settings ?c (JStr ''abc'')) (Some not_found_response)]\<rparr>"
    by (simp add: fixture_defs eval_defs eval_nat_numeral)
  from h1 non_200_polls_again_without_delay [of refusing ?s default_settings ?c "JStr ''abc''"
      not_found_response "()" 0 3 300]
  have p1: "poll_body refusing default_settings ?c (JStr ''abc'') 0 ?s =
      (Inr JNull, ?s\<lparr>server := (), trace := trace ?s @ [Http (status_request default_settings ?c (JStr ''abc''))
                   (Some not_found_response)]\<rparr>)"
    by blast
  from h2 non_200_polls_again_without_delay [of "scripted None" ?sp default_settings ?c "JStr ''abc''"
      pending_response "[]" 0 3 300]
  have p2: "\<exists>r. fst (scripted None (server ?sp) (status_request default_settings ?c (JStr ''abc''))) = Some r
           \<and> status_code r = 200
           \<and> (document_url r = Inl KeyError \<or> document_url r = Inl TypeError)"
    by blast
  from h3 non_200_polls_again_without_delay [of refusing ?s default_settings ?c "JStr ''abc''"
      not_found_response "()" 0 3 300]
  have p3: "poll_for_pdf refusing default_settings ?c (JStr ''abc'') 0 3 ?s =
      Running (final (poll_for_pdf refusing default_settings ?c (JStr ''abc'') 0 3 ?s))"
    by blast
  have d: "document_url pending_response = Inl KeyError"
    by (simp add: fixture_defs document_url_def response_json_def)
  from h1 h2 p1 run d show ?thesis by simp
qed

subsection \<open>C9: all jobs are created, one after the other, before any is polled\<close>

text \<open>
  Claim C9. Whatever the schedule and however the run ends, the events of a batch are
  first the creation exchanges, for a prefix of the entries in the order of the entries
  and each with its answer, then the events of the poll loops (status requests and
  sleeps). Every creation before the last one got an answer, so a creation is sent only
  after the one before it was answered; and if there is any poll event at all, every
  entry's job was created and answered before it.
\<close>

theorem creations_in_order_before_any_poll:
  "\<exists>anss polls.
      length anss \<le> length data
    \<and> (\<forall>a \<in> set (butlast anss). a \<noteq> None)
    \<and> trace (final (handle_post_template_jobs srv cfg sched token template data w)) =
        creation_events cfg (AsyncClient token) template data anss @ polls
    \<and> list_all is_poll_event polls
    \<and> (polls \<noteq> [] \<longrightarrow> length anss = length data \<and> (\<forall>a \<in> set anss. a \<noteq> None))"
proof -
  let ?c = "AsyncClient token"
  obtain r s where cj: "create_jobs srv cfg ?c template data [] (fresh w) = (r, s)"
    by (cases "create_jobs srv cfg ?c template data [] (fresh w)")
  from create_jobs_run [OF cj] obtain anss where
    len: "length anss \<le> length data"
    and tr: "trace s = creation_events cfg ?c template data anss"
    and bl: "\<forall>a \<in> set (butlast anss). a \<noteq> None"
    and rr: "(case r of
          Inl e \<Rightarrow> anss \<noteq> [] \<and> (last anss = None) = (e = TransportError)
        | Inr jobs' \<Rightarrow>
            length anss = length data \<and> (\<forall>a \<in> set anss. a \<noteq> None)
            \<and> (\<exists>new. jobs' = [] @ new \<and> length new = length data
                 \<and> (\<forall>i<length data. p_link (new ! i) = JNull
                       \<and> (\<exists>job_req. anss ! i = Some job_req
                             \<and> job_id_of job_req = Inr (p_job_id (new ! i))))))"
    by auto
  show ?thesis
  proof (cases r)
    case (Inl e)
    with cj have "handle_post_template_jobs srv cfg sched token template data w = Raised e s"
      by (simp add: handle_post_template_jobs_def)
    with len tr bl show ?thesis
      by (intro exI [of _ anss] exI [of _ "[]"]) simp
  next
    case (Inr jobs)
    with cj have h: "handle_post_template_jobs srv cfg sched token template data w =
        gather srv cfg ?c sched jobs s"
      by (simp add: handle_post_template_jobs_def)
    from gather_run [of srv cfg ?c sched jobs s] obtain evs where
      "trace (final (gather srv cfg ?c sched jobs s)) = trace s @ evs"
      "list_all is_poll_event evs" by blast
    with h len tr bl rr Inr show ?thesis
      by (intro exI [of _ anss] exI [of _ evs]) simp
  qed
qed

theorem creations_in_order_before_any_poll_witness:
  "trace (final (handle_post_template_jobs (scripted None) default_settings [Suc 0, 0, 0, Suc 0] ''tok'' ''invoice''
        [JObj [(''a'', JNum 1)], JObj [(''a'', JNum 2)]]
        [Some (created_response ''abc''), Some (created_response ''def''),
         Some pending_response, Some (ready_response ''url1''), Some (ready_response ''url2'')])) =
     creation_events default_settings (AsyncClient ''tok'') ''invoice''
       [JObj [(''a'', JNum 1)], JObj [(''a'', JNum 2)]]
       [Some (created_response ''abc''), Some (created_response ''def'')]
     @ [Http (status_request default_settings (AsyncClient ''tok'') (JStr ''def'')) (Some pending_response),
        Slept 300,
        Http (status_request default_settings (AsyncClient ''tok'') (JStr ''abc'')) (Some (ready_response ''url1'')),
        Http (status_request default_settings (AsyncClient ''tok'') (JStr ''def'')) (Some (ready_response ''url2''))]
   \<and> list_all is_poll_event
       [Http (status_request default_settings (AsyncClient ''tok'') (JStr ''def'')) (Some pending_response),
        Slept 300,
        Http (status_request default_settings (AsyncClient ''tok'') (JStr ''abc'')) (Some (ready_response ''url1'')),
        Http (status_request default_settings (AsyncClient ''tok'') (JStr ''def'')) (Some (ready_response ''url2''))]
   \<and> \<not> list_ex is_poll_event
       (creation_events default_settings (AsyncClient ''tok'') ''invoice''
         [JObj [(''a'', JNum 1)], JObj [(''a'', JNum 2)]]
         [Some (created_response ''abc''), Some (created_response ''def'')])"
  using creations_in_order_before_any_poll [where srv = "scripted None" and cfg = default_settings
      and sched = "[Suc 0, 0, 0, Suc 0]" and token = "''tok''" and template = "''invoice''"
      and data = "[JObj [(''a'', JNum 1)], JObj [(''a'', JNum 2)]]"
      and w = "[Some (created_response ''abc''), Some (created_response ''def''),
         Some pending_response, Some (ready_response ''url1''), Some (ready_response ''url2'')]"]
  by (simp add: fixture_defs eval_defs create_jobs.simps is_poll_event_def)

subsection \<open>C10: the command for one entry is the batch of that one entry\<close>

text \<open>
  Claim C10. \<open>add_job_template\<close> for a template and a data object \<open>d\<close> runs the batch
  for the one-element list \<open>[d]\<close>. When the batch returns, its list has exactly one
  element, so taking the first raises nothing, and the command echoes that element and
  ends; when the batch raises or is still running, so is the command.
\<close>

theorem add_job_template_is_singleton_batch:
  "(handle_post_template_jobs srv cfg sched token template [data] w = Returned pdfs s \<longrightarrow>
      length pdfs = 1
      \<and> add_job_template srv cfg sched template data token w =
          ([''Creating PDF from template with given data.'', py_str (pdfs ! 0)], Returned () s))
   \<and> (handle_post_template_jobs srv cfg sched token template [data] w = Raised e s \<longrightarrow>
      add_job_template srv cfg sched template data token w =
          ([''Creating PDF from template with given data.''], Raised e s))
   \<and> (handle_post_template_jobs srv cfg sched token template [data] w = Running s \<longrightarrow>
      add_job_template srv cfg sched template data token w =
          ([''Creating PDF from template with given data.''], Running s))"
proof (intro conjI impI)
  assume r: "handle_post_template_jobs srv cfg sched token template [data] w = Returned pdfs s"
  from batch_results_singleton [OF r] show l: "length pdfs = 1" by simp
  then obtain pdf where "pdfs = [pdf]" by (cases pdfs) auto
  with r show "add_job_template srv cfg sched template data token w =
          ([''Creating PDF from template with given data.'', py_str (pdfs ! 0)], Returned () s)"
    by (simp add: add_job_template_def)
qed (simp_all add: add_job_template_def)

theorem add_job_template_is_singleton_batch_witness:
  "handle_post_template_jobs (scripted None) default_settings [0] ''tok'' ''invoice''
     [JObj [(''a'', JNum 1)]] [Some (created_response ''abc''), Some (ready_response ''url1'')] =
   Returned [JStr ''url1'']
     \<lparr>server = [], progress = [100],
      trace =
        [Http (creation_request default_settings (AsyncClient ''tok'') ''invoice'' (JObj [(''a'', JNum 1)]))
           (Some (created_response ''abc'')),
         Http (status_request default_settings (AsyncClient ''tok'') (JStr ''abc''))
           (Some (ready_response ''url1''))]\<rparr>
   \<and> add_job_template (scripted None) default_settings [0] ''invoice'' (JObj [(''a'', JNum 1)]) ''tok''
       [Some (created_response ''abc''), Some (ready_response ''url1'')] =
     ([''Creating PDF from template with given data.'', ''url1''],
      Returned ()
        \<lparr>server = [], progress = [100],
         trace =
           [Http (creation_request default_settings (AsyncClient ''tok'') ''invoice'' (JObj [(''a'', JNum 1)]))
              (Some (created_response ''abc'')),
            Http (status_request default_settings (AsyncClient ''tok'') (JStr ''abc''))
              (Some (ready_response ''url1''))]\<rparr>)
   \<and> handle_post_template_jobs (scripted None) default_settings [0] ''tok'' ''invoice''
        [JObj [(''a'', JNum 1)]] [None] =
      Raised TransportError
        \<lparr>server = [], progress = [0],
         trace =
           [Http (creation_request default_settings (AsyncClient ''tok'') ''invoice'' (JObj [(''a'', JNum 1)]))
              None]\<rparr>
   \<and> add_job_template (scripted None) default_settings [0] ''invoice'' (JObj [(''a'', JNum 1)]) ''tok'' [None] =
     ([''Creating PDF from template with given data.''],
      Raised TransportError
        \<lparr>server = [], progress = [0],
         trace =
           [Http (creation_request default_settings (AsyncClient ''tok'') ''invoice'' (JObj [(''a'', JNum 1)]))
              None]\<rparr>)
   \<and> handle_post_template_jobs (scripted None) default_settings [] ''tok'' ''invoice''
        [JObj [(''a'', JNum 1)]] [Some (created_response ''abc'')] =
      Running
        \<lparr>server = [], progress = [0],
         trace =
           [Http (creation_request default_settings (AsyncClient ''tok'') ''invoice'' (JObj [(''a'', JNum 1)]))
              (Some (created_response ''abc''))]\<rparr>
   \<and> add_job_template (scripted None) default_settings [] ''invoice'' (JObj [(''a'', JNum 1)]) ''tok''
        [Some (created_response ''abc'')] =
     ([''Creating PDF from template with given data.''],
      Running
        \<lparr>server = [], progress = [0],
         trace =
           [Http (creation_request default_settings (AsyncClient ''tok'') ''invoice'' (JObj [(''a'', JNum 1)]))
              (Some (created_response ''abc''))]\<rparr>)"
proof -
  let ?d = "JObj [(''a'', JNum 1)]"
  let ?w1 = "[Some (created_response ''abc''), Some (ready_response ''url1'')]"
  let ?s1 = "\<lparr>server = [], progress = [100],
      trace =
        [Http (creation_request default_settings (AsyncClient ''tok'') ''invoice'' ?d)
           (Some (created_response ''abc'')),
         Http (status_request default_settings (AsyncClient ''tok'') (JStr ''abc''))
           (Some (ready_response ''url1''))]\<rparr>"
  let ?s2 = "\<lparr>server = [], progress = [0],
         trace = [Http (creation_request default_settings (AsyncClient ''tok'') ''invoice'' ?d) None]\<rparr>"
  let ?s3 = "\<lparr>server = [], progress = [0],
         trace = [Http (creation_request default_settings (AsyncClient ''tok'') ''invoice'' ?d)
                    (Some (created_response ''abc''))]\<rparr>"
  have r1: "handle_post_template_jobs (scripted None) default_settings [0] ''tok'' ''invoice'' [?d] ?w1 =
      Returned [JStr ''url1''] ?s1"
    and r2: "handle_post_template_jobs (scripted None) default_settings [0] ''tok'' ''invoice'' [?d] [None] =
      Raised TransportError ?s2"
    and r3: "handle_post_template_jobs (scripted None) default_settings [] ''tok'' ''invoice'' [?d]
      [Some (created_response ''abc'')] = Running ?s3"
    by (simp_all add: fixture_defs eval_defs create_jobs.simps)
  from r1 add_job_template_is_singleton_batch [of "scripted None" default_settings "[0]" "''tok''"
      "''invoice''" ?d ?w1 "[JStr ''url1'']" ?s1 TransportError]
  have a1: "add_job_template (scripted None) default_settings [0] ''invoice'' ?d ''tok'' ?w1 =
     ([''Creating PDF from template with given data.'', py_str ([JStr ''url1''] ! 0)], Returned () ?s1)"
    by blast
  from r2 add_job_template_is_singleton_batch [of "scripted None" default_settings "[0]" "''tok''"
      "''invoice''" ?d "[None]" "[]" ?s2 TransportError]
  have a2: "add_job_template (scripted None) default_settings [0] ''invoice'' ?d ''tok'' [None] =
     ([''Creating PDF from template with given data.''], Raised TransportError ?s2)"
    by blast
  from r3 add_job_template_is_singleton_batch [of "scripted None" default_settings "[]" "''tok''"
      "''invoice''" ?d "[Some (created_response ''abc'')]" "[]" ?s3 TransportError]
  have a3: "add_job_template (scripted None) default_settings [] ''invoice'' ?d ''tok''
      [Some (created_response ''abc'')] =
     ([''Creating PDF from template with given data.''], Running ?s3)"
    by blast
  from r1 r2 r3 a1 a2 a3 show ?thesis by (simp add: py_str_def)
qed

end
